theory Spec2Isabelle
  imports Complex_Main
begin

section \<open>Double-precision values\<close>

text \<open>
  Every C++ \<^verbatim>\<open>double\<close> of the program is a \<open>dbl\<close>. A finite double is idealised as
  the exact real it stands for: rounding, overflow and underflow are not modelled, and
  the two zeros of IEEE 754 are one value, which behaves as the positive zero where the
  sign of a zero decides a result (a division by zero). The infinities and NaN are kept
  apart, one value standing for every NaN, and the arithmetic on them is that of
  IEEE 754: a NaN operand gives a NaN, and so do \<open>\<infinity> - \<infinity>\<close>, \<open>0 * \<infinity>\<close>, \<open>0 / 0\<close> and \<open>\<infinity> / \<infinity>\<close>.
\<close>

datatype dbl = Finite real | PlusInf | MinusInf | NaN

instantiation dbl :: "{zero, one, plus, minus, uminus, times, inverse}"
begin

definition zero_dbl :: dbl where
  "zero_dbl = Finite 0"

definition one_dbl :: dbl where
  "one_dbl = Finite 1"

fun plus_dbl :: "dbl \<Rightarrow> dbl \<Rightarrow> dbl" where
  "plus_dbl (Finite a) (Finite b) = Finite (a + b)"
| "plus_dbl NaN _ = NaN"
| "plus_dbl _ NaN = NaN"
| "plus_dbl PlusInf MinusInf = NaN"
| "plus_dbl MinusInf PlusInf = NaN"
| "plus_dbl PlusInf _ = PlusInf"
| "plus_dbl _ PlusInf = PlusInf"
| "plus_dbl MinusInf _ = MinusInf"
| "plus_dbl _ MinusInf = MinusInf"

fun uminus_dbl :: "dbl \<Rightarrow> dbl" where
  "uminus_dbl (Finite a) = Finite (- a)"
| "uminus_dbl PlusInf = MinusInf"
| "uminus_dbl MinusInf = PlusInf"
| "uminus_dbl NaN = NaN"

fun minus_dbl :: "dbl \<Rightarrow> dbl \<Rightarrow> dbl" where
  "minus_dbl (Finite a) (Finite b) = Finite (a - b)"
| "minus_dbl NaN _ = NaN"
| "minus_dbl _ NaN = NaN"
| "minus_dbl PlusInf PlusInf = NaN"
| "minus_dbl MinusInf MinusInf = NaN"
| "minus_dbl PlusInf _ = PlusInf"
| "minus_dbl _ MinusInf = PlusInf"
| "minus_dbl MinusInf _ = MinusInf"
| "minus_dbl _ PlusInf = MinusInf"

fun times_dbl :: "dbl \<Rightarrow> dbl \<Rightarrow> dbl" where
  "times_dbl (Finite a) (Finite b) = Finite (a * b)"
| "times_dbl NaN _ = NaN"
| "times_dbl _ NaN = NaN"
| "times_dbl (Finite a) PlusInf = (if a = 0 then NaN else if 0 < a then PlusInf else MinusInf)"
| "times_dbl (Finite a) MinusInf = (if a = 0 then NaN else if 0 < a then MinusInf else PlusInf)"
| "times_dbl PlusInf (Finite b) = (if b = 0 then NaN else if 0 < b then PlusInf else MinusInf)"
| "times_dbl MinusInf (Finite b) = (if b = 0 then NaN else if 0 < b then MinusInf else PlusInf)"
| "times_dbl PlusInf PlusInf = PlusInf"
| "times_dbl PlusInf MinusInf = MinusInf"
| "times_dbl MinusInf PlusInf = MinusInf"
| "times_dbl MinusInf MinusInf = PlusInf"

fun inverse_dbl :: "dbl \<Rightarrow> dbl" where
  "inverse_dbl (Finite a) = (if a = 0 then PlusInf else Finite (1 / a))"
| "inverse_dbl NaN = NaN"
| "inverse_dbl _ = Finite 0"

fun divide_dbl :: "dbl \<Rightarrow> dbl \<Rightarrow> dbl" where
  "divide_dbl (Finite a) (Finite b) =
     (if b \<noteq> 0 then Finite (a / b)
      else if a = 0 then NaN else if 0 < a then PlusInf else MinusInf)"
| "divide_dbl NaN _ = NaN"
| "divide_dbl _ NaN = NaN"
| "divide_dbl (Finite a) _ = Finite 0"
| "divide_dbl PlusInf (Finite b) = (if 0 \<le> b then PlusInf else MinusInf)"
| "divide_dbl MinusInf (Finite b) = (if 0 \<le> b then MinusInf else PlusInf)"
| "divide_dbl _ _ = NaN"

instance ..

end

text \<open>
  Without rounding, sums and products of doubles may be reordered and regrouped, also
  with infinities and NaN among the operands. Products do not distribute over sums
  (\<open>\<infinity> * (2 - 1)\<close> is \<open>\<infinity>\<close>, but \<open>\<infinity> * 2 - \<infinity> * 1\<close> is a NaN), and a product with zero is
  zero for a finite factor only.
\<close>

instance dbl :: "{comm_monoid_add, comm_monoid_mult}"
proof
  fix x y z :: dbl
  show "x + y + z = x + (y + z)"
    by (cases x; cases y; cases z; simp)
  show "x * y * z = x * (y * z)"
    by (cases x; cases y; cases z)
      (auto simp add: zero_less_mult_iff mult_less_0_iff not_less)
  show "x + y = y + x" and "x * y = y * x"
    by (cases x; cases y; simp)+
  show "0 + x = x" and "1 * x = x"
    by (cases x; simp add: zero_dbl_def one_dbl_def)+
qed

text \<open>\<^verbatim>\<open>std::isfinite\<close>: neither an infinity nor a NaN.\<close>

definition is_finite :: "dbl \<Rightarrow> bool" where
  "is_finite x = (case x of Finite a \<Rightarrow> True | _ \<Rightarrow> False)"

text \<open>
  The comparisons \<^verbatim>\<open><\<close>, \<^verbatim>\<open><=\<close> and \<^verbatim>\<open>==\<close> of doubles. A comparison with a NaN is false,
  also that of a NaN with itself; an infinity equals itself.
\<close>

fun less_d :: "dbl \<Rightarrow> dbl \<Rightarrow> bool" where
  "less_d (Finite a) (Finite b) = (a < b)"
| "less_d NaN _ = False"
| "less_d _ NaN = False"
| "less_d PlusInf _ = False"
| "less_d _ MinusInf = False"
| "less_d _ _ = True"

fun equal_d :: "dbl \<Rightarrow> dbl \<Rightarrow> bool" where
  "equal_d (Finite a) (Finite b) = (a = b)"
| "equal_d PlusInf PlusInf = True"
| "equal_d MinusInf MinusInf = True"
| "equal_d _ _ = False"

definition less_eq_d :: "dbl \<Rightarrow> dbl \<Rightarrow> bool" where
  "less_eq_d x y = (less_d x y \<or> equal_d x y)"

text \<open>
  \<^verbatim>\<open>std::exp\<close> and \<^verbatim>\<open>std::pow\<close> of \<^verbatim>\<open><cmath>\<close>, with the special values of the C standard
  (Annex F). On finite arguments of \<open>pow\<close>: a positive base is the real power; a zero
  base gives 0 for a positive exponent, 1 for exponent 0 and a pole (+infinity) for a
  negative exponent; a negative base is defined for integral exponents only and is a
  NaN otherwise. Exponent 0 gives 1 and base 1 gives 1 whatever the other argument is,
  a NaN included.
\<close>

fun exp_d :: "dbl \<Rightarrow> dbl" where
  "exp_d (Finite a) = Finite (exp a)"
| "exp_d PlusInf = PlusInf"
| "exp_d MinusInf = Finite 0"
| "exp_d NaN = NaN"

fun pow :: "dbl \<Rightarrow> dbl \<Rightarrow> dbl" where
  "pow (Finite x) (Finite y) =
     (if 0 < x then Finite (x powr y)
      else if x = 0 then (if 0 < y then Finite 0 else if y = 0 then Finite 1 else PlusInf)
      else if y = of_int \<lfloor>y\<rfloor> then Finite (x powi \<lfloor>y\<rfloor>)
      else NaN)"
| "pow (Finite x) PlusInf =
     (if x = 1 \<or> x = - 1 then Finite 1 else if \<bar>x\<bar> < 1 then Finite 0 else PlusInf)"
| "pow (Finite x) MinusInf =
     (if x = 1 \<or> x = - 1 then Finite 1 else if \<bar>x\<bar> < 1 then PlusInf else Finite 0)"
| "pow (Finite x) NaN = (if x = 1 then Finite 1 else NaN)"
| "pow PlusInf (Finite y) =
     (if y = 0 then Finite 1 else if y < 0 then Finite 0 else PlusInf)"
| "pow MinusInf (Finite y) =
     (if y = 0 then Finite 1 else if y < 0 then Finite 0
      else if y = of_int \<lfloor>y\<rfloor> \<and> odd \<lfloor>y\<rfloor> then MinusInf else PlusInf)"
| "pow NaN (Finite y) = (if y = 0 then Finite 1 else NaN)"
| "pow PlusInf PlusInf = PlusInf"
| "pow MinusInf PlusInf = PlusInf"
| "pow PlusInf MinusInf = Finite 0"
| "pow MinusInf MinusInf = Finite 0"
| "pow _ _ = NaN"

text \<open>\<^verbatim>\<open>std::max(a, b)\<close> is \<^verbatim>\<open>(a < b) ? b : a\<close>.\<close>

definition std_max :: "dbl \<Rightarrow> dbl \<Rightarrow> dbl" where
  "std_max a b = (if less_d a b then b else a)"


section \<open>Physical constants\<close>

text \<open>
  \<^verbatim>\<open>physical_constants.hpp\<close> is not among the sources: the constants it declares are
  parameters of the embedding, collected in one record.
\<close>

record physical_constants =
  rho_ice :: dbl
  rho_water :: dbl
  gravity :: dbl
  A0_cold :: dbl
  Q_cold :: dbl
  idealgas :: dbl
  Temp :: dbl

definition strain_rate :: dbl where
  "strain_rate = Finite 0.2"

definition B :: "physical_constants \<Rightarrow> dbl" where
  "B pc = Finite 0.5 * pow (A0_cold pc * exp_d (- Q_cold pc / (idealgas pc * Temp pc)))
                          (- Finite 1 / Finite 3)"

definition nu_guess :: "physical_constants \<Rightarrow> dbl" where
  "nu_guess pc = B pc * pow (strain_rate * strain_rate) (- Finite 1 / Finite 3)"


section \<open>Points, tensors and functions of deal.II\<close>

type_synonym point = "dbl \<times> dbl"

text \<open>\<^verbatim>\<open>Tensor<1, 2>\<close>, with the product \<^verbatim>\<open>double * Tensor<1, 2>\<close>.\<close>

type_synonym tensor1 = "dbl \<times> dbl"

definition scale :: "dbl \<Rightarrow> tensor1 \<Rightarrow> tensor1" where
  "scale k t = (k * fst t, k * snd t)"

text \<open>
  \<^verbatim>\<open>SymmetricTensor<2, 2>\<close> stores the three independent components. Its
  \<^verbatim>\<open>first_invariant\<close> is the trace and its \<^verbatim>\<open>second_invariant\<close>, in two dimensions, is
  \<^verbatim>\<open>t[0][0]*t[1][1] - t[0][1]*t[0][1]\<close>.
\<close>

datatype symmetric_tensor2 = SymmetricTensor2 (t00: dbl) (t01: dbl) (t11: dbl)

definition first_invariant :: "symmetric_tensor2 \<Rightarrow> dbl" where
  "first_invariant t = t00 t + t11 t"

definition second_invariant :: "symmetric_tensor2 \<Rightarrow> dbl" where
  "second_invariant t = t00 t * t11 t - t01 t * t01 t"

text \<open>
  \<^verbatim>\<open>Function<2>\<close>: a scalar field with its gradient. \<^verbatim>\<open>value_list\<close> and
  \<^verbatim>\<open>gradient_list\<close> overwrite entry \<open>i\<close> of the output vector with the field at point
  \<open>i\<close> (deal.II asserts that both vectors have the same size).
\<close>

record function2 =
  fn_value :: "point \<Rightarrow> dbl"
  fn_gradient :: "point \<Rightarrow> tensor1"

definition ConstantFunction :: "dbl \<Rightarrow> function2" where
  "ConstantFunction c = \<lparr>fn_value = (\<lambda>x. c), fn_gradient = (\<lambda>x. (Finite 0, Finite 0))\<rparr>"

definition fill_list :: "(point \<Rightarrow> 'a) \<Rightarrow> point list \<Rightarrow> 'a list \<Rightarrow> 'a list" where
  "fill_list f points vals = map f (take (length vals) points) @ drop (length points) vals"

definition value_list :: "function2 \<Rightarrow> point list \<Rightarrow> dbl list \<Rightarrow> dbl list" where
  "value_list f points vals = fill_list (fn_value f) points vals"

definition gradient_list :: "function2 \<Rightarrow> point list \<Rightarrow> tensor1 list \<Rightarrow> tensor1 list" where
  "gradient_list f points vals = fill_list (fn_gradient f) points vals"

text \<open>
  \<^verbatim>\<open>Vector<double>\<close> and \<^verbatim>\<open>FullMatrix<double>\<close> (a list of rows). Assigning a scalar to a
  \<^verbatim>\<open>FullMatrix\<close> sets every entry and keeps the size.
\<close>

type_synonym vector = "dbl list"

type_synonym full_matrix = "dbl list list"

definition full_matrix_assign :: "full_matrix \<Rightarrow> dbl \<Rightarrow> full_matrix" where
  "full_matrix_assign m d = map (map (\<lambda>_. d)) m"

text \<open>
  \<^verbatim>\<open>FiniteElement<2>\<close>, and \<^verbatim>\<open>FEValues<2>\<close> and \<^verbatim>\<open>FEFaceValues<2>\<close> after \<^verbatim>\<open>reinit\<close> on a
  cell or a face: the data deal.II has computed there. Shape functions are indexed by
  local degree of freedom, then by quadrature point.
\<close>

record finite_element =
  dofs_per_cell :: nat
  system_to_component_index :: "nat \<Rightarrow> nat"

record fe_values =
  get_quadrature_points :: "point list"
  JxW :: "nat \<Rightarrow> dbl"
  shape_value :: "nat \<Rightarrow> nat \<Rightarrow> dbl"
  shape_grad_component :: "nat \<Rightarrow> nat \<Rightarrow> nat \<Rightarrow> tensor1"
  get_function_gradients :: "vector \<Rightarrow> tensor1 list list"

record fe_face_values =
  quadrature_point :: "nat \<Rightarrow> point"
  normal_vector :: "nat \<Rightarrow> tensor1"
  face_JxW :: "nat \<Rightarrow> dbl"
  face_shape_value :: "nat \<Rightarrow> nat \<Rightarrow> dbl"


section \<open>The helpers of EllipticSystems\<close>

text \<open>
  \<^verbatim>\<open>elliptic_systems.hpp\<close> is not among the sources. The functions of
  \<^verbatim>\<open>shallow_shelf.cpp\<close> take its helpers as a parameter \<open>es\<close>, so that what is proved
  of them holds whatever the helpers compute; \<open>'t\<close> is the type of the rank-4
  stress-strain tensor.
\<close>

record 't elliptic_systems =
  stress_strain_tensor :: "dbl \<Rightarrow> dbl \<Rightarrow> 't"
  fill_cell_matrix :: "full_matrix \<Rightarrow> 't \<Rightarrow> fe_values \<Rightarrow> nat \<Rightarrow> nat \<Rightarrow> full_matrix"
  get_strain :: "tensor1 list \<Rightarrow> symmetric_tensor2"
  fill_cell_rhs_field ::
    "vector \<Rightarrow> tensor1 \<Rightarrow> finite_element \<Rightarrow> fe_values \<Rightarrow> nat \<Rightarrow> nat \<Rightarrow> vector"
  fill_cell_rhs_neumann ::
    "vector \<Rightarrow> tensor1 \<Rightarrow> finite_element \<Rightarrow> fe_face_values \<Rightarrow> nat \<Rightarrow> nat \<Rightarrow> vector"


section \<open>The two assemblers of the local stiffness matrix\<close>

text \<open>
  The members of \<^verbatim>\<open>AssembleMatrixLinear\<close> and \<^verbatim>\<open>AssembleMatrixNonLinear\<close>, with the
  constructors' initialisation (a \<^verbatim>\<open>std::vector\<close> of a given size holds zeros). The
  scratch vectors are read at the index of the quadrature point; the constructors size
  them to \<open>n_q_points\<close>.
\<close>

record AssembleMatrixLinear =
  lin_n_q_points :: nat
  lin_dofs_per_cell :: nat
  lin_thickness :: function2
  lin_nu :: function2
  lin_thickness_values :: "dbl list"
  lin_nu_values :: "dbl list"

definition AssembleMatrixLinear_init ::
  "nat \<Rightarrow> nat \<Rightarrow> function2 \<Rightarrow> function2 \<Rightarrow> AssembleMatrixLinear" where
  "AssembleMatrixLinear_init n_q dofs thick visc =
     \<lparr>lin_n_q_points = n_q, lin_dofs_per_cell = dofs, lin_thickness = thick, lin_nu = visc,
      lin_thickness_values = replicate n_q (Finite 0),
      lin_nu_values = replicate n_q (Finite 0)\<rparr>"

record AssembleMatrixNonLinear =
  nl_n_q_points :: nat
  nl_dofs_per_cell :: nat
  nl_thickness :: function2
  nl_solution :: vector
  nl_thickness_values :: "dbl list"
  nl_velocity_gradient_values :: "tensor1 list list"

definition AssembleMatrixNonLinear_init ::
  "nat \<Rightarrow> nat \<Rightarrow> function2 \<Rightarrow> vector \<Rightarrow> AssembleMatrixNonLinear" where
  "AssembleMatrixNonLinear_init n_q dofs thick sol =
     \<lparr>nl_n_q_points = n_q, nl_dofs_per_cell = dofs, nl_thickness = thick, nl_solution = sol,
      nl_thickness_values = replicate n_q (Finite 0),
      nl_velocity_gradient_values = replicate n_q (replicate 2 (Finite 0, Finite 0))\<rparr>"

text \<open>The body of the loop over quadrature points of \<^verbatim>\<open>AssembleMatrixLinear::operator()\<close>.\<close>

definition AssembleMatrixLinear_q_point ::
  "'t elliptic_systems \<Rightarrow> AssembleMatrixLinear \<Rightarrow> fe_values \<Rightarrow> nat \<Rightarrow> full_matrix
     \<Rightarrow> full_matrix" where
  "AssembleMatrixLinear_q_point es a fev q_point cell_matrix =
     (let nu_q = lin_nu_values a ! q_point * lin_thickness_values a ! q_point;
          stress_strain = stress_strain_tensor es (Finite 2 * nu_q) nu_q
      in fill_cell_matrix es cell_matrix stress_strain fev q_point (lin_dofs_per_cell a))"

text \<open>
  \<^verbatim>\<open>AssembleMatrixLinear::operator()\<close>: the assembler with its scratch vectors refreshed,
  and the cell matrix.
\<close>

definition AssembleMatrixLinear_call ::
  "'t elliptic_systems \<Rightarrow> AssembleMatrixLinear \<Rightarrow> fe_values \<Rightarrow> full_matrix
     \<Rightarrow> AssembleMatrixLinear \<times> full_matrix" where
  "AssembleMatrixLinear_call es a fev cell_matrix =
     (let cell_matrix0 = full_matrix_assign cell_matrix (Finite 0);
          a1 = a\<lparr>lin_nu_values :=
                   value_list (lin_nu a) (get_quadrature_points fev) (lin_nu_values a)\<rparr>;
          a2 = a1\<lparr>lin_thickness_values :=
                   value_list (lin_thickness a1) (get_quadrature_points fev)
                     (lin_thickness_values a1)\<rparr>
      in (a2, fold (AssembleMatrixLinear_q_point es a2 fev) [0..<lin_n_q_points a2]
                cell_matrix0))"

text \<open>The body of the loop of \<^verbatim>\<open>AssembleMatrixNonLinear::operator()\<close>.\<close>

definition AssembleMatrixNonLinear_q_point ::
  "'t elliptic_systems \<Rightarrow> physical_constants \<Rightarrow> AssembleMatrixNonLinear \<Rightarrow> fe_values \<Rightarrow> nat
     \<Rightarrow> full_matrix \<Rightarrow> full_matrix" where
  "AssembleMatrixNonLinear_q_point es pc a fev q_point cell_matrix =
     (let eps = get_strain es (nl_velocity_gradient_values a ! q_point);
          trace_eps = first_invariant eps;
          eps2 = trace_eps * trace_eps - second_invariant eps;
          nu = B pc * pow eps2 (- Finite 1 / Finite 3) * nl_thickness_values a ! q_point;
          stress_strain = stress_strain_tensor es (Finite 2 * nu) nu
      in fill_cell_matrix es cell_matrix stress_strain fev q_point (nl_dofs_per_cell a))"

definition AssembleMatrixNonLinear_call ::
  "'t elliptic_systems \<Rightarrow> physical_constants \<Rightarrow> AssembleMatrixNonLinear \<Rightarrow> fe_values
     \<Rightarrow> full_matrix \<Rightarrow> AssembleMatrixNonLinear \<times> full_matrix" where
  "AssembleMatrixNonLinear_call es pc a fev cell_matrix =
     (let cell_matrix0 = full_matrix_assign cell_matrix (Finite 0);
          a1 = a\<lparr>nl_thickness_values :=
                   value_list (nl_thickness a) (get_quadrature_points fev)
                     (nl_thickness_values a)\<rparr>;
          a2 = a1\<lparr>nl_velocity_gradient_values :=
                   get_function_gradients fev (nl_solution a1)\<rparr>
      in (a2, fold (AssembleMatrixNonLinear_q_point es pc a2 fev) [0..<nl_n_q_points a2]
                cell_matrix0))"


section \<open>The global system\<close>

text \<open>
  A cell of the active mesh, as \<^verbatim>\<open>assemble_system\<close> sees it: the values \<^verbatim>\<open>fe_values\<close>
  holds after \<^verbatim>\<open>reinit (cell)\<close>, its faces (with the values \<^verbatim>\<open>fe_face_values\<close> holds
  after \<^verbatim>\<open>reinit (cell, face_number)\<close>) and its global degree-of-freedom indices.
\<close>

record tria_face =
  at_boundary :: bool
  boundary_indicator :: nat
  face_fe_values :: fe_face_values

record cell =
  cell_fe_values :: fe_values
  face :: "nat \<Rightarrow> tria_face"
  get_dof_indices :: "nat list"

text \<open>\<^verbatim>\<open>GeometryInfo<2>::faces_per_cell\<close>.\<close>

definition faces_per_cell :: nat where
  "faces_per_cell = 4"

text \<open>
  \<^verbatim>\<open>SparseMatrix<double>\<close> by its entries (zero outside the sparsity pattern), with
  \<^verbatim>\<open>add (i, j, value)\<close>.
\<close>

type_synonym sparse_matrix = "nat \<Rightarrow> nat \<Rightarrow> dbl"

definition sparse_add :: "sparse_matrix \<Rightarrow> nat \<Rightarrow> nat \<Rightarrow> dbl \<Rightarrow> sparse_matrix" where
  "sparse_add m i j v = m(i := (m i)(j := m i j + v))"

text \<open>
  The polymorphic \<^verbatim>\<open>AssembleMatrix<2>&\<close> that \<^verbatim>\<open>assemble_system\<close> receives: one of the
  two assemblers, called through the virtual \<^verbatim>\<open>operator()\<close>.
\<close>

datatype assemble_matrix = Linear AssembleMatrixLinear | NonLinear AssembleMatrixNonLinear

fun assemble_matrix_call ::
  "'t elliptic_systems \<Rightarrow> physical_constants \<Rightarrow> assemble_matrix \<Rightarrow> fe_values \<Rightarrow> full_matrix
     \<Rightarrow> assemble_matrix \<times> full_matrix" where
  "assemble_matrix_call es pc (Linear a) fev m =
     (case AssembleMatrixLinear_call es a fev m of (a', m') \<Rightarrow> (Linear a', m'))"
| "assemble_matrix_call es pc (NonLinear a) fev m =
     (case AssembleMatrixNonLinear_call es pc a fev m of (a', m') \<Rightarrow> (NonLinear a', m'))"

datatype error = NoConvergence | ExcInternalError

record solver_control =
  max_steps :: nat
  tolerance :: dbl

text \<open>
  The members of \<^verbatim>\<open>ShallowShelf\<close>. The triangulation, the degree-of-freedom handler, the
  constraints and the sparsity pattern are objects of deal.II, opaque here; the two
  quadrature formulas are kept by their \<^verbatim>\<open>size()\<close>.
\<close>

record ('tri, 'dh, 'con, 'sp) ShallowShelf =
  surface :: function2
  bed :: function2
  thickness :: function2
  boundary_velocity :: "point \<Rightarrow> tensor1"
  triangulation :: 'tri
  dof_handler :: 'dh
  fe :: finite_element
  quadrature_formula_size :: nat
  face_quadrature_formula_size :: nat
  hanging_node_constraints :: 'con
  sparsity_pattern :: 'sp
  system_matrix :: sparse_matrix
  solution :: vector
  system_rhs :: vector

text \<open>
  The operations of deal.II the program calls, as a parameter \<open>d\<close>: each takes the
  objects it reads and returns the object it writes. \<open>cg_solve\<close> is
  \<^verbatim>\<open>SolverCG<>::solve\<close>, which throws \<^verbatim>\<open>SolverControl::NoConvergence\<close> when the solver
  control reports failure; the vector it takes is the starting value.
\<close>

record ('tri, 'dh, 'con, 'sp, 'pre, 'st) dealii =
  n_dofs :: "'dh \<Rightarrow> nat"
  max_couplings_between_dofs :: "'dh \<Rightarrow> nat"
  active_cell_iterators :: "'dh \<Rightarrow> cell list"
  distribute_dofs :: "'dh \<Rightarrow> 'tri \<Rightarrow> finite_element \<Rightarrow> 'dh"
  constraints_clear :: "'con \<Rightarrow> 'con"
  make_hanging_node_constraints :: "'dh \<Rightarrow> 'con \<Rightarrow> 'con"
  constraints_close :: "'con \<Rightarrow> 'con"
  condense_pattern :: "'con \<Rightarrow> 'sp \<Rightarrow> 'sp"
  condense_matrix :: "'con \<Rightarrow> sparse_matrix \<Rightarrow> sparse_matrix"
  condense_vector :: "'con \<Rightarrow> vector \<Rightarrow> vector"
  distribute :: "'con \<Rightarrow> vector \<Rightarrow> vector"
  interpolate :: "'dh \<Rightarrow> (point \<Rightarrow> tensor1) \<Rightarrow> vector \<Rightarrow> vector"
  interpolate_boundary_values :: "'dh \<Rightarrow> nat \<Rightarrow> (point \<Rightarrow> tensor1) \<Rightarrow> (nat \<times> dbl) list"
  apply_boundary_values ::
    "(nat \<times> dbl) list \<Rightarrow> sparse_matrix \<Rightarrow> vector \<Rightarrow> vector
       \<Rightarrow> sparse_matrix \<times> vector \<times> vector"
  pattern_reinit :: "nat \<Rightarrow> nat \<Rightarrow> nat \<Rightarrow> 'sp"
  make_sparsity_pattern :: "'dh \<Rightarrow> 'sp \<Rightarrow> 'sp"
  pattern_compress :: "'sp \<Rightarrow> 'sp"
  ilu_initialize :: "sparse_matrix \<Rightarrow> 'pre"
  cg_solve :: "solver_control \<Rightarrow> sparse_matrix \<Rightarrow> vector \<Rightarrow> vector \<Rightarrow> 'pre \<Rightarrow> error + vector"
  refine_global :: "'tri \<Rightarrow> nat \<Rightarrow> 'tri"
  n_active_cells :: "'tri \<Rightarrow> nat"
  kelly_estimate :: "'dh \<Rightarrow> nat \<Rightarrow> vector \<Rightarrow> vector \<Rightarrow> vector"
  refine_and_coarsen_fixed_number :: "'tri \<Rightarrow> vector \<Rightarrow> dbl \<Rightarrow> dbl \<Rightarrow> 'tri"
  prepare_coarsening_and_refinement :: "'tri \<Rightarrow> 'tri"
  execute_coarsening_and_refinement :: "'tri \<Rightarrow> 'tri"
  solution_transfer :: "'dh \<Rightarrow> 'st"
  prepare_for_coarsening_and_refinement :: "'st \<Rightarrow> vector \<Rightarrow> 'st"
  transfer_interpolate :: "'st \<Rightarrow> 'dh \<Rightarrow> vector \<Rightarrow> vector \<Rightarrow> vector"

text \<open>\<^verbatim>\<open>Vector<double>::reinit (n)\<close> and the assignment of a scalar to a vector.\<close>

definition vector_reinit :: "nat \<Rightarrow> vector" where
  "vector_reinit n = replicate n (Finite 0)"

definition vector_assign :: "vector \<Rightarrow> dbl \<Rightarrow> vector" where
  "vector_assign v d = map (\<lambda>_. d) v"


subsection \<open>The solver control\<close>

text \<open>
  \<^verbatim>\<open>SolverControl::check (step, check_value)\<close> of deal.II, as the library documents it:
  success as soon as the check value is at most the tolerance; failure once the step
  count has reached the maximum number of steps, or when the value is a NaN; otherwise
  the solver is to iterate. The value is compared with the tolerance itself: the control
  takes no account of the value the iteration started from.
\<close>

datatype control_state = Iterate | Success | Failure

definition SolverControl_check :: "solver_control \<Rightarrow> nat \<Rightarrow> dbl \<Rightarrow> control_state" where
  "SolverControl_check control step check_value =
     (if less_eq_d check_value (tolerance control) then Success
      else if max_steps control \<le> step \<or> check_value = NaN then Failure
      else Iterate)"

text \<open>
  \<^verbatim>\<open>SolverCG<>::solve\<close> of deal.II hands the control the l2 norm of the residual, of the
  starting value at step 0 and of the iterate after every step, until the control
  stops it; it returns the iterate on success and throws
  \<^verbatim>\<open>SolverControl::NoConvergence\<close> on failure. The conjugate-gradient steps themselves
  are a parameter: \<open>steps k\<close> is the iterate after \<open>k\<close> steps with the norm of its
  residual. The control stops the loop at step \<open>max_steps\<close> at the latest.
\<close>

definition SolverCG_solve :: "solver_control \<Rightarrow> (nat \<Rightarrow> vector \<times> dbl) \<Rightarrow> error + vector" where
  "SolverCG_solve control steps =
     (case find (\<lambda>k. SolverControl_check control k (snd (steps k)) \<noteq> Iterate)
             [0..<Suc (max_steps control)] of
        None \<Rightarrow> Inl NoConvergence
      | Some k \<Rightarrow>
          (if SolverControl_check control k (snd (steps k)) = Success
           then Inr (fst (steps k)) else Inl NoConvergence))"


subsection \<open>setup_system\<close>

definition setup_system ::
  "('tri, 'dh, 'con, 'sp, 'pre, 'st) dealii \<Rightarrow> bool \<Rightarrow> ('tri, 'dh, 'con, 'sp) ShallowShelf
     \<Rightarrow> ('tri, 'dh, 'con, 'sp) ShallowShelf" where
  "setup_system d initial_step s =
     (let s1 =
            (if initial_step then
               (let dh = distribute_dofs d (dof_handler s) (triangulation s) (fe s);
                    c1 = constraints_clear d (hanging_node_constraints s);
                    c2 = make_hanging_node_constraints d dh c1;
                    c3 = constraints_close d c2;
                    sol = vector_reinit (n_dofs d dh)
                in s\<lparr>dof_handler := dh, hanging_node_constraints := c3,
                      solution := interpolate d dh (boundary_velocity s) sol\<rparr>)
             else s);
          sp1 = pattern_reinit d (n_dofs d (dof_handler s1)) (n_dofs d (dof_handler s1))
                  (max_couplings_between_dofs d (dof_handler s1));
          sp2 = make_sparsity_pattern d (dof_handler s1) sp1;
          sp3 = condense_pattern d (hanging_node_constraints s1) sp2;
          sp4 = pattern_compress d sp3
      in s1\<lparr>sparsity_pattern := sp4, system_matrix := (\<lambda>i j. Finite 0),
             system_rhs := vector_reinit (n_dofs d (dof_handler s1))\<rparr>)"


subsection \<open>assemble_system\<close>

text \<open>The body of the loop over the quadrature points of a cell: the driving stress.\<close>

definition assemble_system_q_point ::
  "'t elliptic_systems \<Rightarrow> physical_constants \<Rightarrow> finite_element \<Rightarrow> fe_values \<Rightarrow> dbl list
     \<Rightarrow> tensor1 list \<Rightarrow> nat \<Rightarrow> vector \<Rightarrow> vector" where
  "assemble_system_q_point es pc fel fev thickness_values surface_gradient_values q_point
       cell_rhs =
     (let driving_stress =
            scale (- rho_ice pc * gravity pc * thickness_values ! q_point)
              (surface_gradient_values ! q_point)
      in fill_cell_rhs_field es cell_rhs driving_stress fel fev q_point (dofs_per_cell fel))"

text \<open>The body of the loop over the quadrature points of a face at the calving front.\<close>

definition assemble_system_face_q_point ::
  "'t elliptic_systems \<Rightarrow> physical_constants \<Rightarrow> function2 \<Rightarrow> function2 \<Rightarrow> finite_element
     \<Rightarrow> fe_face_values \<Rightarrow> nat \<Rightarrow> vector \<Rightarrow> vector" where
  "assemble_system_face_q_point es pc surf thick fel ffv q_point cell_rhs =
     (let x = quadrature_point ffv q_point;
          h = fn_value thick x;
          b = fn_value surf x - fn_value thick x;
          neumann_value =
            scale (Finite 0.5 * gravity pc * (rho_ice pc * h * h - rho_water pc * b * b))
              (normal_vector ffv q_point)
      in fill_cell_rhs_neumann es cell_rhs neumann_value fel ffv q_point (dofs_per_cell fel))"

text \<open>The body of the loop over the faces of a cell.\<close>

definition assemble_system_face ::
  "'t elliptic_systems \<Rightarrow> physical_constants \<Rightarrow> function2 \<Rightarrow> function2 \<Rightarrow> finite_element
     \<Rightarrow> nat \<Rightarrow> cell \<Rightarrow> nat \<Rightarrow> vector \<Rightarrow> vector" where
  "assemble_system_face es pc surf thick fel n_face_q_points c face_number cell_rhs =
     (if at_boundary (face c face_number) \<and> boundary_indicator (face c face_number) = 1
      then fold (assemble_system_face_q_point es pc surf thick fel
                   (face_fe_values (face c face_number)))
             [0..<n_face_q_points] cell_rhs
      else cell_rhs)"

text \<open>
  What the loop over the cells carries from one cell to the next: the assembler, the
  local buffers declared before the loop, and the global matrix and right-hand side.
\<close>

record assembly =
  assembler :: assemble_matrix
  cell_matrix :: full_matrix
  cell_rhs :: vector
  thickness_values :: "dbl list"
  surface_gradient_values :: "tensor1 list"
  matrix_sum :: sparse_matrix
  rhs_sum :: vector

text \<open>Adding the cell's matrix and right-hand side to their global counterparts.\<close>

definition scatter ::
  "nat \<Rightarrow> nat list \<Rightarrow> full_matrix \<Rightarrow> vector \<Rightarrow> sparse_matrix \<times> vector
     \<Rightarrow> sparse_matrix \<times> vector" where
  "scatter dofs local_dof_indices cm cr acc =
     fold (\<lambda>i (sm, rhs).
             (fold (\<lambda>j sm'. sparse_add sm' (local_dof_indices ! i) (local_dof_indices ! j)
                              (cm ! i ! j))
                [0..<dofs] sm,
              rhs[local_dof_indices ! i := rhs ! (local_dof_indices ! i) + cr ! i]))
       [0..<dofs] acc"

text \<open>The body of the loop over the cells.\<close>

definition assemble_system_cell ::
  "'t elliptic_systems \<Rightarrow> physical_constants \<Rightarrow> ('tri, 'dh, 'con, 'sp) ShallowShelf \<Rightarrow> cell
     \<Rightarrow> assembly \<Rightarrow> assembly" where
  "assemble_system_cell es pc s c st =
     (let cm0 = full_matrix_assign (cell_matrix st) (Finite 0);
          cr0 = vector_assign (cell_rhs st) (Finite 0);
          fev = cell_fe_values c;
          tv = value_list (thickness s) (get_quadrature_points fev) (thickness_values st);
          gv = gradient_list (surface s) (get_quadrature_points fev)
                 (surface_gradient_values st);
          (asm, cm1) = assemble_matrix_call es pc (assembler st) fev cm0;
          cr1 = fold (assemble_system_q_point es pc (fe s) fev tv gv)
                  [0..<quadrature_formula_size s] cr0;
          cr2 = fold (assemble_system_face es pc (surface s) (thickness s) (fe s)
                        (face_quadrature_formula_size s) c)
                  [0..<faces_per_cell] cr1;
          (sm, rhs) = scatter (dofs_per_cell (fe s)) (get_dof_indices c) cm1 cr2
                        (matrix_sum st, rhs_sum st)
      in \<lparr>assembler = asm, cell_matrix = cm1, cell_rhs = cr2, thickness_values = tv,
          surface_gradient_values = gv, matrix_sum = sm, rhs_sum = rhs\<rparr>)"

text \<open>
  The loop over the active cells, from zeroed global objects and freshly declared local
  buffers.
\<close>

definition assemble_cells ::
  "('tri, 'dh, 'con, 'sp, 'pre, 'st) dealii \<Rightarrow> 't elliptic_systems \<Rightarrow> physical_constants
     \<Rightarrow> assemble_matrix \<Rightarrow> ('tri, 'dh, 'con, 'sp) ShallowShelf \<Rightarrow> assembly" where
  "assemble_cells d es pc am s =
     fold (assemble_system_cell es pc s) (active_cell_iterators d (dof_handler s))
       \<lparr>assembler = am,
        cell_matrix = replicate (dofs_per_cell (fe s))
                        (replicate (dofs_per_cell (fe s)) (Finite 0)),
        cell_rhs = replicate (dofs_per_cell (fe s)) (Finite 0),
        thickness_values = replicate (quadrature_formula_size s) (Finite 0),
        surface_gradient_values = replicate (quadrature_formula_size s) (Finite 0, Finite 0),
        matrix_sum = (\<lambda>i j. Finite 0),
        rhs_sum = vector_assign (system_rhs s) (Finite 0)\<rparr>"

text \<open>
  \<^verbatim>\<open>ShallowShelf::assemble_system\<close>: the loop over the cells, then the hanging-node
  constraints and the Dirichlet values of boundary 0.
\<close>

definition assemble_system ::
  "('tri, 'dh, 'con, 'sp, 'pre, 'st) dealii \<Rightarrow> 't elliptic_systems \<Rightarrow> physical_constants
     \<Rightarrow> assemble_matrix \<Rightarrow> ('tri, 'dh, 'con, 'sp) ShallowShelf
     \<Rightarrow> ('tri, 'dh, 'con, 'sp) ShallowShelf" where
  "assemble_system d es pc am s =
     (let st = assemble_cells d es pc am s;
          sm1 = condense_matrix d (hanging_node_constraints s) (matrix_sum st);
          rhs1 = condense_vector d (hanging_node_constraints s) (rhs_sum st);
          boundary_values =
            interpolate_boundary_values d (dof_handler s) 0 (boundary_velocity s)
      in case apply_boundary_values d boundary_values sm1 (solution s) rhs1 of
           (sm2, sol2, rhs2) \<Rightarrow>
             s\<lparr>system_matrix := sm2, solution := sol2, system_rhs := rhs2\<rparr>)"


subsection \<open>solve\<close>

text \<open>
  A counted \<^verbatim>\<open>for\<close> loop whose body may throw: the exception leaves the loop, and the
  function, at once.
\<close>

fun for_loop :: "(nat \<Rightarrow> 'a \<Rightarrow> error + 'a) \<Rightarrow> nat list \<Rightarrow> 'a \<Rightarrow> error + 'a" where
  "for_loop body [] s = Inr s"
| "for_loop body (i # is) s =
     (case body i s of Inl e \<Rightarrow> Inl e | Inr s' \<Rightarrow> for_loop body is s')"

text \<open>
  The body of the loop of \<^verbatim>\<open>ShallowShelf::solve\<close>. The nonlinear assembler holds a
  reference to the member \<^verbatim>\<open>solution\<close>; nothing writes to that vector while the cells
  are assembled, so the assembler reads the solution as it is when the iteration
  starts.
\<close>

definition solve_iteration ::
  "('tri, 'dh, 'con, 'sp, 'pre, 'st) dealii \<Rightarrow> 't elliptic_systems \<Rightarrow> physical_constants
     \<Rightarrow> nat \<Rightarrow> ('tri, 'dh, 'con, 'sp) ShallowShelf
     \<Rightarrow> error + ('tri, 'dh, 'con, 'sp) ShallowShelf" where
  "solve_iteration d es pc iteration s =
     (let solver_control = \<lparr>max_steps = 1000, tolerance = Finite (1 / 10 ^ 12)\<rparr>;
          s1 = (if iteration = 0 then
                  (let nu = ConstantFunction (nu_guess pc);
                       am = AssembleMatrixLinear_init (quadrature_formula_size s)
                              (dofs_per_cell (fe s)) (thickness s) nu
                   in assemble_system d es pc (Linear am) s)
                else
                  (let am = AssembleMatrixNonLinear_init (quadrature_formula_size s)
                              (dofs_per_cell (fe s)) (thickness s) (solution s)
                   in assemble_system d es pc (NonLinear am) s));
          preconditioner = ilu_initialize d (system_matrix s1)
      in case cg_solve d solver_control (system_matrix s1) (solution s1) (system_rhs s1)
                preconditioner of
           Inl e \<Rightarrow> Inl e
         | Inr x \<Rightarrow> Inr (s1\<lparr>solution := distribute d (hanging_node_constraints s1) x\<rparr>))"

definition solve ::
  "('tri, 'dh, 'con, 'sp, 'pre, 'st) dealii \<Rightarrow> 't elliptic_systems \<Rightarrow> physical_constants
     \<Rightarrow> ('tri, 'dh, 'con, 'sp) ShallowShelf \<Rightarrow> error + ('tri, 'dh, 'con, 'sp) ShallowShelf" where
  "solve d es pc s = for_loop (solve_iteration d es pc) [0..<5] s"


subsection \<open>refine_grid, output_results and run\<close>

definition refine_grid ::
  "('tri, 'dh, 'con, 'sp, 'pre, 'st) dealii \<Rightarrow> ('tri, 'dh, 'con, 'sp) ShallowShelf
     \<Rightarrow> ('tri, 'dh, 'con, 'sp) ShallowShelf" where
  "refine_grid d s =
     (let estimated_error_per_cell =
            kelly_estimate d (dof_handler s) 2 (solution s)
              (vector_reinit (n_active_cells d (triangulation s)));
          tri1 = refine_and_coarsen_fixed_number d (triangulation s) estimated_error_per_cell
                   (Finite 0.3) (Finite 0.03);
          tri2 = prepare_coarsening_and_refinement d tri1;
          st = prepare_for_coarsening_and_refinement d (solution_transfer d (dof_handler s))
                 (solution s);
          tri3 = execute_coarsening_and_refinement d tri2;
          dh = distribute_dofs d (dof_handler s) tri3 (fe s);
          tmp = transfer_interpolate d st dh (solution s) (vector_reinit (n_dofs d dh));
          boundary_values = interpolate_boundary_values d dh 0 (boundary_velocity s);
          sol = fold (\<lambda>dof_val v. v[fst dof_val := snd dof_val]) boundary_values tmp;
          c1 = constraints_clear d (hanging_node_constraints s);
          c2 = make_hanging_node_constraints d dh c1;
          c3 = constraints_close d c2
      in setup_system d False
           (s\<lparr>triangulation := tri3, dof_handler := dh, hanging_node_constraints := c3,
              solution := distribute d c3 sol\<rparr>))"

text \<open>
  The file \<^verbatim>\<open>output_results\<close> writes: its name, the names of the solution's components
  and the data attached. The assertion on the cycle number is the one of the source.
\<close>

record 'dh vtk_file =
  file_name :: string
  solution_names :: "string list"
  attached_dof_handler :: 'dh
  data_vector :: vector

definition output_results ::
  "('tri, 'dh, 'con, 'sp) ShallowShelf \<Rightarrow> nat \<Rightarrow> error + 'dh vtk_file" where
  "output_results s cycle =
     (let filename = ''solution-'' @ [char_of (48 + cycle)]
      in if \<not> cycle < 10 then Inl ExcInternalError
         else Inr \<lparr>file_name = filename @ ''.vtk'',
                   solution_names = [''x_velocity'', ''y_velocity''],
                   attached_dof_handler = dof_handler s,
                   data_vector = solution s\<rparr>)"

text \<open>
  The body of the loop of \<^verbatim>\<open>ShallowShelf::run\<close>, on the solver and the files written
  so far (what it prints to the standard output is left out).
\<close>

definition run_cycle ::
  "('tri, 'dh, 'con, 'sp, 'pre, 'st) dealii \<Rightarrow> 't elliptic_systems \<Rightarrow> physical_constants
     \<Rightarrow> nat \<Rightarrow> ('tri, 'dh, 'con, 'sp) ShallowShelf \<times> 'dh vtk_file list
     \<Rightarrow> error + ('tri, 'dh, 'con, 'sp) ShallowShelf \<times> 'dh vtk_file list" where
  "run_cycle d es pc cycle sf =
     (let s1 = (if cycle = 0
                then (fst sf)\<lparr>triangulation := refine_global d (triangulation (fst sf)) 2\<rparr>
                else refine_grid d (fst sf));
          s2 = setup_system d (cycle = 0) s1
      in case solve d es pc s2 of
           Inl e \<Rightarrow> Inl e
         | Inr s3 \<Rightarrow>
             (case output_results s3 cycle of
                Inl e \<Rightarrow> Inl e
              | Inr f \<Rightarrow> Inr (s3, snd sf @ [f])))"

definition run ::
  "('tri, 'dh, 'con, 'sp, 'pre, 'st) dealii \<Rightarrow> 't elliptic_systems \<Rightarrow> physical_constants
     \<Rightarrow> ('tri, 'dh, 'con, 'sp) ShallowShelf
     \<Rightarrow> error + ('tri, 'dh, 'con, 'sp) ShallowShelf \<times> 'dh vtk_file list" where
  "run d es pc s = for_loop (run_cycle d es pc) [0..<3] (s, [])"


section \<open>The ice surface\<close>

record IceSurface =
  surface_bed :: function2
  surface_thickness :: function2

definition IceSurface_value :: "physical_constants \<Rightarrow> IceSurface \<Rightarrow> point \<Rightarrow> nat \<Rightarrow> dbl" where
  "IceSurface_value pc srf x component =
     (let h = fn_value (surface_thickness srf) x;
          b = fn_value (surface_bed srf) x
      in std_max (b + h) ((Finite 1 - rho_ice pc / rho_water pc) * h))"


section \<open>The helpers of EllipticSystems, from the specification\<close>

text \<open>
  Components of a \<^verbatim>\<open>Tensor<1, 2>\<close> and of a \<^verbatim>\<open>SymmetricTensor<2, 2>\<close> by index, and the
  rank-4 tensor as the function of its four indices.
\<close>

definition tensor1_at :: "tensor1 \<Rightarrow> nat \<Rightarrow> dbl" where
  "tensor1_at t c = (if c = 0 then fst t else snd t)"

definition tensor2_at :: "symmetric_tensor2 \<Rightarrow> nat \<Rightarrow> nat \<Rightarrow> dbl" where
  "tensor2_at t i j =
     (if i = 0 \<and> j = 0 then t00 t else if i = 1 \<and> j = 1 then t11 t else t01 t)"

type_synonym tensor4 = "nat \<Rightarrow> nat \<Rightarrow> nat \<Rightarrow> nat \<Rightarrow> dbl"

text \<open>
  Modelled from the spec: \<^verbatim>\<open>EllipticSystems::stress_strain_tensor\<close>
  (\<^verbatim>\<open>elliptic_systems.hpp\<close> is not among the sources). The specification describes a
  symmetric rank-4 tensor with two scalar parameters that maps a strain rate to a
  stress, called with an isotropic term weighted by 2 and a volumetric correction
  weighted by 1: the isotropic tensor with the coefficient \<open>lambda\<close> on the trace part
  and \<open>mu\<close> on the two symmetric identity parts.
\<close>

definition ES_stress_strain_tensor :: "dbl \<Rightarrow> dbl \<Rightarrow> tensor4" where
  "ES_stress_strain_tensor lambda mu =
     (\<lambda>i j k l. (if i = k \<and> j = l then mu else Finite 0)
               + (if i = l \<and> j = k then mu else Finite 0)
               + (if i = j \<and> k = l then lambda else Finite 0))"

text \<open>
  Modelled from the spec: \<^verbatim>\<open>EllipticSystems::get_strain\<close> (\<^verbatim>\<open>elliptic_systems.hpp\<close> is
  not among the sources): the symmetric 2x2 tensor built from the gradients of the two
  components of a vector field at a point.
\<close>

definition ES_get_strain :: "tensor1 list \<Rightarrow> symmetric_tensor2" where
  "ES_get_strain grad =
     SymmetricTensor2 (fst (grad ! 0)) ((snd (grad ! 0) + fst (grad ! 1)) / Finite 2)
       (snd (grad ! 1))"

text \<open>
  Modelled from the spec: the two ingredients of the bilinear form
  \<open>grad phi_i : C : grad phi_j\<close> that \<^verbatim>\<open>fill_cell_matrix\<close> integrates
  (\<^verbatim>\<open>elliptic_systems.hpp\<close> is not among the sources): the strain of shape function \<open>i\<close>
  at a quadrature point, from the gradients of its two components, and the double
  contraction \<open>e1 : C : e2\<close> over all four indices.
\<close>

definition shape_strain :: "fe_values \<Rightarrow> nat \<Rightarrow> nat \<Rightarrow> symmetric_tensor2" where
  "shape_strain fev i q =
     ES_get_strain [shape_grad_component fev i q 0, shape_grad_component fev i q 1]"

definition contract :: "symmetric_tensor2 \<Rightarrow> tensor4 \<Rightarrow> symmetric_tensor2 \<Rightarrow> dbl" where
  "contract e1 C e2 =
     (\<Sum>i<2. \<Sum>j<2. \<Sum>k<2. \<Sum>l<2. tensor2_at e1 i j * C i j k l * tensor2_at e2 k l)"

text \<open>
  Modelled from the spec: \<^verbatim>\<open>EllipticSystems::fill_cell_matrix\<close> (\<^verbatim>\<open>elliptic_systems.hpp\<close>
  is not among the sources): the standard assembly of the bilinear form at one
  quadrature point, entry \<open>(i, j)\<close> gaining the strain of shape function \<open>i\<close>
  contracted with the stress-strain tensor and the strain of shape function \<open>j\<close>,
  weighted by the quadrature weight.
\<close>

definition ES_fill_cell_matrix ::
  "full_matrix \<Rightarrow> tensor4 \<Rightarrow> fe_values \<Rightarrow> nat \<Rightarrow> nat \<Rightarrow> full_matrix" where
  "ES_fill_cell_matrix m C fev q dofs =
     map (\<lambda>i. map (\<lambda>j. if i < dofs \<and> j < dofs
                       then m ! i ! j
                            + contract (shape_strain fev i q) C (shape_strain fev j q)
                              * JxW fev q
                       else m ! i ! j)
                [0..<length (m ! i)])
       [0..<length m]"

text \<open>
  Modelled from the spec: \<^verbatim>\<open>EllipticSystems::fill_cell_rhs_field\<close>
  (\<^verbatim>\<open>elliptic_systems.hpp\<close> is not among the sources): the load of a body force at one
  quadrature point, entry \<open>i\<close> gaining the shape function times the component of the
  force that the degree of freedom belongs to, weighted by the quadrature weight.
\<close>

definition ES_fill_cell_rhs_field ::
  "vector \<Rightarrow> tensor1 \<Rightarrow> finite_element \<Rightarrow> fe_values \<Rightarrow> nat \<Rightarrow> nat \<Rightarrow> vector" where
  "ES_fill_cell_rhs_field r field_value fel fev q dofs =
     map (\<lambda>i. if i < dofs
              then r ! i + shape_value fev i q
                           * tensor1_at field_value (system_to_component_index fel i)
                           * JxW fev q
              else r ! i)
       [0..<length r]"

text \<open>
  Modelled from the spec: \<^verbatim>\<open>EllipticSystems::fill_cell_rhs_neumann\<close>
  (\<^verbatim>\<open>elliptic_systems.hpp\<close> is not among the sources): the same for a boundary stress
  at one quadrature point of a face.
\<close>

definition ES_fill_cell_rhs_neumann ::
  "vector \<Rightarrow> tensor1 \<Rightarrow> finite_element \<Rightarrow> fe_face_values \<Rightarrow> nat \<Rightarrow> nat \<Rightarrow> vector" where
  "ES_fill_cell_rhs_neumann r neumann_value fel ffv q dofs =
     map (\<lambda>i. if i < dofs
              then r ! i + face_shape_value ffv i q
                           * tensor1_at neumann_value (system_to_component_index fel i)
                           * face_JxW ffv q
              else r ! i)
       [0..<length r]"

definition EllipticSystems :: "tensor4 elliptic_systems" where
  "EllipticSystems =
     \<lparr>stress_strain_tensor = ES_stress_strain_tensor,
      fill_cell_matrix = ES_fill_cell_matrix,
      get_strain = ES_get_strain,
      fill_cell_rhs_field = ES_fill_cell_rhs_field,
      fill_cell_rhs_neumann = ES_fill_cell_rhs_neumann\<rparr>"


section \<open>The specification's words\<close>

text \<open>
  The flow-law coefficient, the effective strain rate squared and the viscosity of the
  nonlinear mode, as the specification writes them.
\<close>

definition flow_law_coefficient :: "physical_constants \<Rightarrow> dbl" where
  "flow_law_coefficient pc =
     Finite 0.5 * pow (A0_cold pc * exp_d (- (Q_cold pc / (idealgas pc * Temp pc))))
                    (Finite (- (1 / 3)))"

definition effective_strain_rate_squared :: "symmetric_tensor2 \<Rightarrow> dbl" where
  "effective_strain_rate_squared eps = (first_invariant eps)\<^sup>2 - second_invariant eps"

definition viscosity_closure :: "physical_constants \<Rightarrow> symmetric_tensor2 \<Rightarrow> dbl" where
  "viscosity_closure pc eps =
     flow_law_coefficient pc * pow (effective_strain_rate_squared eps) (Finite (- (1 / 3)))"

text \<open>
  The driving stress \<open>- rho_ice * g * h * grad s\<close> and the stress at the calving front
  \<open>0.5 * g * (rho_ice * h^2 - rho_water * b^2) * n\<close>, with \<open>b\<close> the surface elevation
  minus the thickness, at a point \<open>x\<close>.
\<close>

definition driving_stress ::
  "physical_constants \<Rightarrow> function2 \<Rightarrow> function2 \<Rightarrow> point \<Rightarrow> tensor1" where
  "driving_stress pc thick surf x =
     scale (- (rho_ice pc * gravity pc * fn_value thick x)) (fn_gradient surf x)"

definition calving_front_stress ::
  "physical_constants \<Rightarrow> function2 \<Rightarrow> function2 \<Rightarrow> point \<Rightarrow> tensor1 \<Rightarrow> tensor1" where
  "calving_front_stress pc thick surf x n =
     (let h = fn_value thick x;
          b = fn_value surf x - fn_value thick x
      in scale (Finite 0.5 * gravity pc * (rho_ice pc * h\<^sup>2 - rho_water pc * b\<^sup>2)) n)"




text \<open>
  The faces that receive the calving-front load, the stress that is left of
  \<open>calving_front_stress\<close> where the thickness is zero, and shape data without an
  infinity or a NaN at a quadrature point.
\<close>

definition calving_front_face :: "cell \<Rightarrow> nat \<Rightarrow> bool" where
  "calving_front_face c f = (at_boundary (face c f) \<and> boundary_indicator (face c f) = 1)"

definition water_pressure_stress ::
  "physical_constants \<Rightarrow> function2 \<Rightarrow> point \<Rightarrow> tensor1 \<Rightarrow> tensor1" where
  "water_pressure_stress pc surf x n =
     scale (- (Finite 0.5 * gravity pc * (rho_water pc * (fn_value surf x)\<^sup>2))) n"

definition finite_fe_values :: "fe_values \<Rightarrow> nat \<Rightarrow> nat \<Rightarrow> bool" where
  "finite_fe_values fev dofs q =
     (is_finite (JxW fev q)
      \<and> (\<forall>i<dofs. is_finite (shape_value fev i q)
            \<and> is_finite (fst (shape_grad_component fev i q 0))
            \<and> is_finite (snd (shape_grad_component fev i q 0))
            \<and> is_finite (fst (shape_grad_component fev i q 1))
            \<and> is_finite (snd (shape_grad_component fev i q 1))))"


text \<open>
  Sequencing of steps that may fail: the first failure is the result.
\<close>

definition and_then :: "error + 'a \<Rightarrow> ('a \<Rightarrow> error + 'b) \<Rightarrow> error + 'b" where
  "and_then r f = (case r of Inl e \<Rightarrow> Inl e | Inr x \<Rightarrow> f x)"

text \<open>
  One Picard iteration, as the specification describes it: build the system (with the
  linear assembler and the constant viscosity \<open>B * (0.2^2)^(-1/3)\<close> in iteration 0, with
  the nonlinear assembler on the current velocity afterwards), then solve it by the
  preconditioned conjugate-gradient method with the iteration cap 1000 and the
  tolerance 1e-12, the preconditioner built from the matrix just assembled, and
  redistribute the hanging-node constraints on the solution.
\<close>

definition constant_viscosity_guess :: "physical_constants \<Rightarrow> dbl" where
  "constant_viscosity_guess pc = B pc * pow ((Finite 0.2)\<^sup>2) (Finite (- (1 / 3)))"

definition picard_assemble ::
  "('tri, 'dh, 'con, 'sp, 'pre, 'st) dealii \<Rightarrow> 't elliptic_systems \<Rightarrow> physical_constants
     \<Rightarrow> nat \<Rightarrow> ('tri, 'dh, 'con, 'sp) ShallowShelf \<Rightarrow> ('tri, 'dh, 'con, 'sp) ShallowShelf" where
  "picard_assemble d es pc iteration s =
     (if iteration = 0
      then assemble_system d es pc
             (Linear (AssembleMatrixLinear_init (quadrature_formula_size s)
                        (dofs_per_cell (fe s)) (thickness s)
                        (ConstantFunction (constant_viscosity_guess pc)))) s
      else assemble_system d es pc
             (NonLinear (AssembleMatrixNonLinear_init (quadrature_formula_size s)
                           (dofs_per_cell (fe s)) (thickness s) (solution s))) s)"

definition solve_and_distribute ::
  "('tri, 'dh, 'con, 'sp, 'pre, 'st) dealii \<Rightarrow> ('tri, 'dh, 'con, 'sp) ShallowShelf
     \<Rightarrow> error + ('tri, 'dh, 'con, 'sp) ShallowShelf" where
  "solve_and_distribute d s =
     (case cg_solve d \<lparr>max_steps = 1000, tolerance = Finite (1 / 10 ^ 12)\<rparr>
             (system_matrix s) (solution s) (system_rhs s)
             (ilu_initialize d (system_matrix s)) of
        Inl e \<Rightarrow> Inl e
      | Inr x \<Rightarrow> Inr (s\<lparr>solution := distribute d (hanging_node_constraints s) x\<rparr>))"

definition picard_iteration ::
  "('tri, 'dh, 'con, 'sp, 'pre, 'st) dealii \<Rightarrow> 't elliptic_systems \<Rightarrow> physical_constants
     \<Rightarrow> nat \<Rightarrow> ('tri, 'dh, 'con, 'sp) ShallowShelf
     \<Rightarrow> error + ('tri, 'dh, 'con, 'sp) ShallowShelf" where
  "picard_iteration d es pc iteration s =
     solve_and_distribute d (picard_assemble d es pc iteration s)"

text \<open>
  The mesh cycles, as the specification describes them. Cycle 0 refines the mesh
  globally, distributes the degrees of freedom, builds the constraints and takes the
  interpolated boundary velocity as the first guess. Every later cycle estimates the
  error of the current solution, marks the top 30 percent of the cells for refinement
  and the bottom 3 percent for coarsening, changes the mesh, interpolates the old
  solution onto it, overwrites the degrees of freedom of boundary 0 with the exact
  boundary values, rebuilds the constraints and distributes them. Both end by
  reinitialising the global system to the number of degrees of freedom of the new
  mesh; then the nonlinear solver runs and the solution is written out.
\<close>

definition reinit_global_system ::
  "('tri, 'dh, 'con, 'sp, 'pre, 'st) dealii \<Rightarrow> ('tri, 'dh, 'con, 'sp) ShallowShelf
     \<Rightarrow> ('tri, 'dh, 'con, 'sp) ShallowShelf" where
  "reinit_global_system d s =
     s\<lparr>sparsity_pattern :=
          pattern_compress d
            (condense_pattern d (hanging_node_constraints s)
               (make_sparsity_pattern d (dof_handler s)
                  (pattern_reinit d (n_dofs d (dof_handler s)) (n_dofs d (dof_handler s))
                     (max_couplings_between_dofs d (dof_handler s))))),
        system_matrix := (\<lambda>i j. Finite 0),
        system_rhs := vector_reinit (n_dofs d (dof_handler s))\<rparr>"

definition rebuild_constraints ::
  "('tri, 'dh, 'con, 'sp, 'pre, 'st) dealii \<Rightarrow> 'dh \<Rightarrow> 'con \<Rightarrow> 'con" where
  "rebuild_constraints d dh con =
     constraints_close d (make_hanging_node_constraints d dh (constraints_clear d con))"

definition initial_mesh ::
  "('tri, 'dh, 'con, 'sp, 'pre, 'st) dealii \<Rightarrow> ('tri, 'dh, 'con, 'sp) ShallowShelf
     \<Rightarrow> ('tri, 'dh, 'con, 'sp) ShallowShelf" where
  "initial_mesh d s =
     (let tri = refine_global d (triangulation s) 2;
          dh = distribute_dofs d (dof_handler s) tri (fe s);
          con = rebuild_constraints d dh (hanging_node_constraints s);
          guess = interpolate d dh (boundary_velocity s) (vector_reinit (n_dofs d dh))
      in reinit_global_system d
           (s\<lparr>triangulation := tri, dof_handler := dh, hanging_node_constraints := con,
              solution := guess\<rparr>))"

definition adapted_mesh ::
  "('tri, 'dh, 'con, 'sp, 'pre, 'st) dealii \<Rightarrow> ('tri, 'dh, 'con, 'sp) ShallowShelf
     \<Rightarrow> ('tri, 'dh, 'con, 'sp) ShallowShelf" where
  "adapted_mesh d s =
     (let indicators = kelly_estimate d (dof_handler s) 2 (solution s)
                         (vector_reinit (n_active_cells d (triangulation s)));
          marked = refine_and_coarsen_fixed_number d (triangulation s) indicators
                     (Finite 0.3) (Finite 0.03);
          old = prepare_for_coarsening_and_refinement d (solution_transfer d (dof_handler s))
                  (solution s);
          tri = execute_coarsening_and_refinement d
                  (prepare_coarsening_and_refinement d marked);
          dh = distribute_dofs d (dof_handler s) tri (fe s);
          interpolated = transfer_interpolate d old dh (solution s)
                           (vector_reinit (n_dofs d dh));
          exact = fold (\<lambda>dof_val v. v[fst dof_val := snd dof_val])
                    (interpolate_boundary_values d dh 0 (boundary_velocity s)) interpolated;
          con = rebuild_constraints d dh (hanging_node_constraints s)
      in reinit_global_system d
           (s\<lparr>triangulation := tri, dof_handler := dh, hanging_node_constraints := con,
              solution := distribute d con exact\<rparr>))"

definition cycle_mesh ::
  "('tri, 'dh, 'con, 'sp, 'pre, 'st) dealii \<Rightarrow> nat \<Rightarrow> ('tri, 'dh, 'con, 'sp) ShallowShelf
     \<Rightarrow> ('tri, 'dh, 'con, 'sp) ShallowShelf" where
  "cycle_mesh d cycle s = (if cycle = 0 then initial_mesh d s else adapted_mesh d s)"

definition solve_and_output ::
  "('tri, 'dh, 'con, 'sp, 'pre, 'st) dealii \<Rightarrow> 't elliptic_systems \<Rightarrow> physical_constants
     \<Rightarrow> nat \<Rightarrow> 'dh vtk_file list \<Rightarrow> ('tri, 'dh, 'con, 'sp) ShallowShelf
     \<Rightarrow> error + ('tri, 'dh, 'con, 'sp) ShallowShelf \<times> 'dh vtk_file list" where
  "solve_and_output d es pc cycle files s =
     and_then (solve d es pc s)
       (\<lambda>s'. and_then (output_results s' cycle) (\<lambda>f. Inr (s', files @ [f])))"

definition initial_cycle ::
  "('tri, 'dh, 'con, 'sp, 'pre, 'st) dealii \<Rightarrow> 't elliptic_systems \<Rightarrow> physical_constants
     \<Rightarrow> ('tri, 'dh, 'con, 'sp) ShallowShelf \<times> 'dh vtk_file list
     \<Rightarrow> error + ('tri, 'dh, 'con, 'sp) ShallowShelf \<times> 'dh vtk_file list" where
  "initial_cycle d es pc sf = solve_and_output d es pc 0 (snd sf) (initial_mesh d (fst sf))"

definition adaptive_cycle ::
  "('tri, 'dh, 'con, 'sp, 'pre, 'st) dealii \<Rightarrow> 't elliptic_systems \<Rightarrow> physical_constants
     \<Rightarrow> nat \<Rightarrow> ('tri, 'dh, 'con, 'sp) ShallowShelf \<times> 'dh vtk_file list
     \<Rightarrow> error + ('tri, 'dh, 'con, 'sp) ShallowShelf \<times> 'dh vtk_file list" where
  "adaptive_cycle d es pc cycle sf =
     solve_and_output d es pc cycle (snd sf) (adapted_mesh d (fst sf))"


section \<open>Example data\<close>

text \<open>
  A small finite element (two degrees of freedom, one per velocity component), its
  values on a cell with one quadrature point, and constants for which the flow-law
  coefficient is one half.
\<close>

definition example_constants :: physical_constants where
  "example_constants =
     \<lparr>rho_ice = Finite 917, rho_water = Finite 1024, gravity = Finite 10, A0_cold = Finite 1,
      Q_cold = Finite 0, idealgas = Finite 1, Temp = Finite 1\<rparr>"

definition example_fe :: finite_element where
  "example_fe = \<lparr>dofs_per_cell = 2, system_to_component_index = (\<lambda>i. i mod 2)\<rparr>"

definition example_fe_values :: fe_values where
  "example_fe_values =
     \<lparr>get_quadrature_points = [(Finite 0, Finite 0)],
      JxW = (\<lambda>q. Finite 1),
      shape_value = (\<lambda>i q. Finite 1),
      shape_grad_component =
        (\<lambda>i q c. if c = i then (Finite 1, Finite 0) else (Finite 0, Finite 0)),
      get_function_gradients = (\<lambda>v. [[(Finite 1, Finite 0), (Finite 0, Finite 0)]])\<rparr>"

definition example_linear :: AssembleMatrixLinear where
  "example_linear =
     AssembleMatrixLinear_init 1 2 (ConstantFunction (Finite 2)) (ConstantFunction (Finite 3))"

definition example_nonlinear :: AssembleMatrixNonLinear where
  "example_nonlinear =
     AssembleMatrixNonLinear_init 1 2 (ConstantFunction (Finite 2)) [Finite 0, Finite 0]"

definition example_surface :: IceSurface where
  "example_surface =
     \<lparr>surface_bed = ConstantFunction (Finite (- 100)),
      surface_thickness = ConstantFunction (Finite 1024)\<rparr>"

text \<open>
  A cell whose face 0 lies on the calving front, a cell with interior faces only, a
  solver on one such cell with flat surface elevation 3 and thickness 2, the same
  solver without ice (thickness 0, surface and bed at elevation 1), the local buffers
  of the assembly loop, and values of the finite element for a velocity that is zero.
\<close>

definition example_face_values :: fe_face_values where
  "example_face_values =
     \<lparr>quadrature_point = (\<lambda>q. (Finite 0, Finite 0)),
      normal_vector = (\<lambda>q. (Finite 1, Finite 0)),
      face_JxW = (\<lambda>q. Finite 1),
      face_shape_value = (\<lambda>i q. Finite 1)\<rparr>"

definition example_cell :: cell where
  "example_cell =
     \<lparr>cell_fe_values = example_fe_values,
      face = (\<lambda>f. \<lparr>at_boundary = (f = 0), boundary_indicator = (if f = 0 then 1 else 255),
                     face_fe_values = example_face_values\<rparr>),
      get_dof_indices = [0, 1]\<rparr>"

definition interior_cell :: cell where
  "interior_cell =
     example_cell\<lparr>face := (\<lambda>f. \<lparr>at_boundary = False, boundary_indicator = 255,
                                  face_fe_values = example_face_values\<rparr>)\<rparr>"

definition example_shelf :: "(unit, unit, unit, unit) ShallowShelf" where
  "example_shelf =
     \<lparr>surface = ConstantFunction (Finite 3), bed = ConstantFunction (Finite 1),
      thickness = ConstantFunction (Finite 2),
      boundary_velocity = (\<lambda>x. (Finite 0, Finite 0)),
      triangulation = (), dof_handler = (), fe = example_fe,
      quadrature_formula_size = 1, face_quadrature_formula_size = 1,
      hanging_node_constraints = (), sparsity_pattern = (),
      system_matrix = (\<lambda>i j. Finite 0), solution = [Finite 0, Finite 0],
      system_rhs = [Finite 0, Finite 0]\<rparr>"

definition ice_free_shelf :: "(unit, unit, unit, unit) ShallowShelf" where
  "ice_free_shelf =
     example_shelf\<lparr>surface := ConstantFunction (Finite 1), bed := ConstantFunction (Finite 1),
                    thickness := ConstantFunction (Finite 0)\<rparr>"

definition example_assembly :: assembly where
  "example_assembly =
     \<lparr>assembler = Linear example_linear,
      cell_matrix = [[Finite 0, Finite 0], [Finite 0, Finite 0]],
      cell_rhs = [Finite 0, Finite 0],
      thickness_values = [Finite 0],
      surface_gradient_values = [(Finite 0, Finite 0)],
      matrix_sum = (\<lambda>i j. Finite 0),
      rhs_sum = [Finite 0, Finite 0]\<rparr>"

definition still_fe_values :: fe_values where
  "still_fe_values =
     example_fe_values\<lparr>get_function_gradients :=
                          (\<lambda>v. [[(Finite 0, Finite 0), (Finite 0, Finite 0)]])\<rparr>"

text \<open>
  Collaborators on that one cell whose conjugate-gradient solver never converges.
\<close>

definition stalling_dealii :: "(unit, unit, unit, unit, unit, unit) dealii" where
  "stalling_dealii =
     \<lparr>n_dofs = (\<lambda>dh. 2), max_couplings_between_dofs = (\<lambda>dh. 2),
      active_cell_iterators = (\<lambda>dh. [example_cell]),
      distribute_dofs = (\<lambda>dh tri fel. ()),
      constraints_clear = (\<lambda>con. ()), make_hanging_node_constraints = (\<lambda>dh con. ()),
      constraints_close = (\<lambda>con. ()), condense_pattern = (\<lambda>con sp. sp),
      condense_matrix = (\<lambda>con m. m), condense_vector = (\<lambda>con v. v),
      distribute = (\<lambda>con v. v), interpolate = (\<lambda>dh f v. v),
      interpolate_boundary_values = (\<lambda>dh b f. []),
      apply_boundary_values = (\<lambda>bv m x b. (m, x, b)),
      pattern_reinit = (\<lambda>m n k. ()), make_sparsity_pattern = (\<lambda>dh sp. sp),
      pattern_compress = (\<lambda>sp. sp), ilu_initialize = (\<lambda>m. ()),
      cg_solve = (\<lambda>control m x b p. Inl NoConvergence),
      refine_global = (\<lambda>tri n. tri), n_active_cells = (\<lambda>tri. 1),
      kelly_estimate = (\<lambda>dh q v e. e),
      refine_and_coarsen_fixed_number = (\<lambda>tri e top bottom. tri),
      prepare_coarsening_and_refinement = (\<lambda>tri. tri),
      execute_coarsening_and_refinement = (\<lambda>tri. tri),
      solution_transfer = (\<lambda>dh. ()),
      prepare_for_coarsening_and_refinement = (\<lambda>st v. st),
      transfer_interpolate = (\<lambda>st dh v tmp. tmp)\<rparr>"

text \<open>
  The same collaborators with a conjugate-gradient solver that succeeds and appends
  the iteration cap it was given to the starting vector, so that the solution records
  every linear solve.
\<close>

definition counting_dealii :: "(unit, unit, unit, unit, unit, unit) dealii" where
  "counting_dealii =
     stalling_dealii\<lparr>cg_solve :=
       (\<lambda>control m x b p. Inr (x @ [Finite (real (max_steps control))]))\<rparr>"

text \<open>
  A conjugate-gradient iteration that never moves and whose residual norm is \<open>10^6\<close> at
  the starting value and \<open>10^-9\<close> after every step, and the same collaborators with
  the solver of deal.II running on it.
\<close>

definition plateau_steps :: "vector \<Rightarrow> nat \<Rightarrow> vector \<times> dbl" where
  "plateau_steps x k = (x, if k = 0 then Finite (10 ^ 6) else Finite (1 / 10 ^ 9))"

definition plateau_dealii :: "(unit, unit, unit, unit, unit, unit) dealii" where
  "plateau_dealii =
     stalling_dealii\<lparr>cg_solve :=
       (\<lambda>control m x b p. SolverCG_solve control (plateau_steps x))\<rparr>"


section \<open>Arithmetic of doubles\<close>

lemma uminus_divide_dbl: "- a / b = - (a / (b::dbl))"
  by (cases a; cases b) simp_all

lemma uminus_mult_dbl: "- a * b = - (a * (b::dbl))"
  by (cases a; cases b) simp_all

lemma mult_uminus_dbl: "a * (- b) = - (a * (b::dbl))"
  by (cases a; cases b) simp_all

lemma zero_minus_dbl: "Finite 0 - y = - y"
  by (cases y) simp_all

lemma minus_zero_dbl: "y - Finite 0 = y"
  by (cases y) simp_all

lemma add_zero_dbl: "x + Finite 0 = x" "Finite 0 + x = x"
  by (cases x; simp)+

lemma is_finite_simps:
  "is_finite (Finite a)" "\<not> is_finite PlusInf" "\<not> is_finite MinusInf" "\<not> is_finite NaN"
  by (simp_all add: is_finite_def)

lemma is_finite_mult: "is_finite x \<Longrightarrow> is_finite y \<Longrightarrow> is_finite (x * y)"
  by (cases x; cases y) (simp_all add: is_finite_def)

lemma is_finite_add: "is_finite x \<Longrightarrow> is_finite y \<Longrightarrow> is_finite (x + y)"
  by (cases x; cases y) (simp_all add: is_finite_def)

lemma is_finite_uminus: "is_finite x \<Longrightarrow> is_finite (- x)"
  by (cases x) (simp_all add: is_finite_def)

lemma is_finite_half: "is_finite x \<Longrightarrow> is_finite (x / Finite 2)"
  by (cases x) (simp_all add: is_finite_def)

lemma mult_zero_finite:
  "is_finite x \<Longrightarrow> x * Finite 0 = Finite 0" "is_finite x \<Longrightarrow> Finite 0 * x = Finite 0"
  by (cases x; simp add: is_finite_def)+


section \<open>Lists and loops\<close>

lemma fill_list_nth:
  "i < length vals \<Longrightarrow> i < length points \<Longrightarrow> fill_list f points vals ! i = f (points ! i)"
  by (simp add: fill_list_def nth_append)

lemma full_matrix_assign_shape:
  "map length m1 = map length m2 \<Longrightarrow> full_matrix_assign m1 d = full_matrix_assign m2 d"
proof -
  assume h: "map length m1 = map length m2"
  have eq: "full_matrix_assign m d = map (\<lambda>n. replicate n d) (map length m)" for m
    by (simp add: full_matrix_assign_def map_replicate_const comp_def)
  show ?thesis by (simp only: eq h)
qed

lemma nested_map_nth: "map (\<lambda>i. map (\<lambda>j. m ! i ! j) [0..<length (m ! i)]) [0..<length m] = m"
  by (simp add: map_nth)

lemma fold_unchanged: "(\<And>x. x \<in> set xs \<Longrightarrow> f x r = r) \<Longrightarrow> fold f xs r = r"
  by (induction xs) simp_all

lemma upt_3: "[0..<3] = [0, 1, 2]"
  by (simp add: upt_rec)

lemma upt_5: "[0..<5] = [0, 1, 2, 3, 4]"
  by (simp add: upt_rec)

lemma upt_split: "k < n \<Longrightarrow> [0..<n] = [0..<k] @ k # [Suc k..<n]"
proof -
  assume "k < n"
  then have "[0..<n] = [0..<k] @ [k..<n]"
    using upt_add_eq_append [of 0 k "n - k"] by simp
  with \<open>k < n\<close> show ?thesis
    by (simp add: upt_conv_Cons)
qed

lemma for_loop_and_then:
  "for_loop body (i # is) s = and_then (body i s) (for_loop body is)"
  by (simp add: and_then_def)

lemma for_loop_fails:
  "for_loop body xs s = Inr s' \<Longrightarrow> body y s' = Inl e \<Longrightarrow> for_loop body (xs @ y # ys) s = Inl e"
  by (induction xs arbitrary: s) (auto split: sum.splits)

lemma and_then_assoc: "and_then (and_then r f) g = and_then r (\<lambda>x. and_then (f x) g)"
  by (cases r) (simp_all add: and_then_def)


section \<open>The helpers modelled from the specification\<close>

lemma ES_simps:
  "stress_strain_tensor EllipticSystems = ES_stress_strain_tensor"
  "fill_cell_matrix EllipticSystems = ES_fill_cell_matrix"
  "get_strain EllipticSystems = ES_get_strain"
  "fill_cell_rhs_field EllipticSystems = ES_fill_cell_rhs_field"
  "fill_cell_rhs_neumann EllipticSystems = ES_fill_cell_rhs_neumann"
  by (simp_all add: EllipticSystems_def)

lemma scale_zero: "is_finite k \<Longrightarrow> scale k (Finite 0, Finite 0) = (Finite 0, Finite 0)"
  by (simp add: scale_def mult_zero_finite)

lemma tensor1_at_zero: "tensor1_at (Finite 0, Finite 0) c = Finite 0"
  by (simp add: tensor1_at_def)

lemma contract_unfold:
  "contract e1 C e2 =
     tensor2_at e1 0 0 * C 0 0 0 0 * tensor2_at e2 0 0
   + tensor2_at e1 0 0 * C 0 0 0 1 * tensor2_at e2 0 1
   + tensor2_at e1 0 0 * C 0 0 1 0 * tensor2_at e2 1 0
   + tensor2_at e1 0 0 * C 0 0 1 1 * tensor2_at e2 1 1
   + tensor2_at e1 0 1 * C 0 1 0 0 * tensor2_at e2 0 0
   + tensor2_at e1 0 1 * C 0 1 0 1 * tensor2_at e2 0 1
   + tensor2_at e1 0 1 * C 0 1 1 0 * tensor2_at e2 1 0
   + tensor2_at e1 0 1 * C 0 1 1 1 * tensor2_at e2 1 1
   + tensor2_at e1 1 0 * C 1 0 0 0 * tensor2_at e2 0 0
   + tensor2_at e1 1 0 * C 1 0 0 1 * tensor2_at e2 0 1
   + tensor2_at e1 1 0 * C 1 0 1 0 * tensor2_at e2 1 0
   + tensor2_at e1 1 0 * C 1 0 1 1 * tensor2_at e2 1 1
   + tensor2_at e1 1 1 * C 1 1 0 0 * tensor2_at e2 0 0
   + tensor2_at e1 1 1 * C 1 1 0 1 * tensor2_at e2 0 1
   + tensor2_at e1 1 1 * C 1 1 1 0 * tensor2_at e2 1 0
   + tensor2_at e1 1 1 * C 1 1 1 1 * tensor2_at e2 1 1"
  by (simp add: contract_def numeral_2_eq_2 lessThan_Suc add.assoc add.commute
      add.left_commute)


lemma contract_zero:
  assumes "\<And>a b. is_finite (tensor2_at e1 a b)" and "\<And>a b. is_finite (tensor2_at e2 a b)"
  shows "contract e1 (\<lambda>i j k l. Finite 0) e2 = Finite 0"
proof -
  have z: "tensor2_at e1 i j * Finite 0 * tensor2_at e2 k l = Finite 0" for i j k l
    using assms(1) [of i j] assms(2) [of k l]
    by (cases "tensor2_at e1 i j"; cases "tensor2_at e2 k l") (simp_all add: is_finite_def)
  show ?thesis
    by (simp only: contract_unfold z add_zero_dbl)
qed


lemma ES_stress_strain_zero:
  "ES_stress_strain_tensor (Finite 0) (Finite 0) = (\<lambda>i j k l. Finite 0)"
  by (intro ext) (simp add: ES_stress_strain_tensor_def)

lemma shape_strain_finite:
  assumes "finite_fe_values fev dofs q" and "i < dofs"
  shows "is_finite (tensor2_at (shape_strain fev i q) a b)"
  using assms
  by (simp add: finite_fe_values_def tensor2_at_def shape_strain_def ES_get_strain_def
      is_finite_half is_finite_add)



lemma ES_fill_cell_matrix_zero:
  assumes "finite_fe_values fev dofs q"
  shows "ES_fill_cell_matrix m (\<lambda>i j k l. Finite 0) fev q dofs = m"
proof -
  have "(if i < dofs \<and> j < dofs
         then m ! i ! j + contract (shape_strain fev i q) (\<lambda>i j k l. Finite 0)
                            (shape_strain fev j q) * JxW fev q
         else m ! i ! j) = m ! i ! j" for i j
    using assms shape_strain_finite [OF assms]
    by (simp add: contract_zero mult_zero_finite add_zero_dbl finite_fe_values_def)
  then show ?thesis
    by (simp add: ES_fill_cell_matrix_def nested_map_nth)
qed

lemma ES_fill_cell_rhs_field_zero:
  assumes "is_finite (JxW fev q)" and "\<forall>i<dofs. is_finite (shape_value fev i q)"
  shows "ES_fill_cell_rhs_field r (Finite 0, Finite 0) fel fev q dofs = r"
proof -
  have "(if i < dofs
         then r ! i + shape_value fev i q
                      * tensor1_at (Finite 0, Finite 0) (system_to_component_index fel i)
                      * JxW fev q
         else r ! i) = r ! i" for i
    using assms by (simp add: tensor1_at_zero mult_zero_finite add_zero_dbl)
  then show ?thesis
    by (simp add: ES_fill_cell_rhs_field_def map_nth)
qed


section \<open>The example data\<close>

lemmas example_defs =
  example_constants_def example_fe_def example_fe_values_def example_linear_def
  example_nonlinear_def example_face_values_def example_cell_def example_shelf_def
  ice_free_shelf_def example_assembly_def still_fe_values_def interior_cell_def
  AssembleMatrixLinear_init_def AssembleMatrixNonLinear_init_def ConstantFunction_def

lemmas ES_defs =
  EllipticSystems_def ES_get_strain_def ES_stress_strain_tensor_def ES_fill_cell_matrix_def
  ES_fill_cell_rhs_field_def ES_fill_cell_rhs_neumann_def shape_strain_def contract_unfold
  tensor2_at_def tensor1_at_def

lemma example_B: "B example_constants = Finite 0.5"
  by (simp add: B_def example_constants_def)

lemma example_wf:
  "length (get_quadrature_points (cell_fe_values example_cell))
     = quadrature_formula_size example_shelf"
  "length (thickness_values example_assembly) = quadrature_formula_size example_shelf"
  "length (surface_gradient_values example_assembly) = quadrature_formula_size example_shelf"
  "length (get_quadrature_points (cell_fe_values example_cell))
     = quadrature_formula_size ice_free_shelf"
  "length (thickness_values example_assembly) = quadrature_formula_size ice_free_shelf"
  "length (surface_gradient_values example_assembly) = quadrature_formula_size ice_free_shelf"
  "length (get_quadrature_points (cell_fe_values interior_cell))
     = quadrature_formula_size ice_free_shelf"
  by (simp_all add: example_defs)


section \<open>The viscosity of the nonlinear assembler\<close>

lemma B_flow_law: "B pc = flow_law_coefficient pc"
  by (simp add: B_def flow_law_coefficient_def uminus_divide_dbl)

lemma viscosity_closure_finite:
  assumes "is_finite (B pc)" and "0 < e" and "effective_strain_rate_squared eps = Finite e"
  shows "is_finite (viscosity_closure pc eps)"
  using assms
  by (simp add: viscosity_closure_def B_flow_law [symmetric] is_finite_mult is_finite_simps)

lemma nonlinear_q_point:
  "AssembleMatrixNonLinear_q_point es pc a fev q cm =
     (let nu = viscosity_closure pc (get_strain es (nl_velocity_gradient_values a ! q));
          h = nl_thickness_values a ! q
      in fill_cell_matrix es cm (stress_strain_tensor es (Finite 2 * nu * h) (nu * h)) fev q
           (nl_dofs_per_cell a))"
  by (simp add: AssembleMatrixNonLinear_q_point_def Let_def viscosity_closure_def
      effective_strain_rate_squared_def B_flow_law power2_eq_square mult.assoc)

lemma AssembleMatrixNonLinear_call_fold:
  assumes "length (get_quadrature_points fev) = nl_n_q_points a"
    and "length (nl_thickness_values a) = nl_n_q_points a"
  shows "snd (AssembleMatrixNonLinear_call es pc a fev m) =
     fold (\<lambda>q cm.
             let eps = get_strain es (get_function_gradients fev (nl_solution a) ! q);
                 nu = viscosity_closure pc eps;
                 h = fn_value (nl_thickness a) (get_quadrature_points fev ! q)
             in fill_cell_matrix es cm
                  (stress_strain_tensor es (Finite 2 * nu * h) (nu * h)) fev q
                  (nl_dofs_per_cell a))
       [0..<nl_n_q_points a] (full_matrix_assign m (Finite 0))"
  using assms
  by (auto simp add: AssembleMatrixNonLinear_call_def Let_def nonlinear_q_point value_list_def
      fill_list_nth intro!: fold_cong)

lemma AssembleMatrixLinear_call_fold:
  "snd (AssembleMatrixLinear_call es a fev m)
     = fold (\<lambda>q cm.
               let nu_q = value_list (lin_nu a) (get_quadrature_points fev) (lin_nu_values a) ! q
                          * value_list (lin_thickness a) (get_quadrature_points fev)
                              (lin_thickness_values a) ! q
               in fill_cell_matrix es cm (stress_strain_tensor es (Finite 2 * nu_q) nu_q) fev q
                    (lin_dofs_per_cell a))
         [0..<lin_n_q_points a] (full_matrix_assign m (Finite 0))"
proof -
  have "AssembleMatrixLinear_q_point es b fev
          = (\<lambda>q cm. let nu_q = lin_nu_values b ! q * lin_thickness_values b ! q
                     in fill_cell_matrix es cm (stress_strain_tensor es (Finite 2 * nu_q) nu_q)
                          fev q (lin_dofs_per_cell b))" for b
    by (intro ext) (simp add: AssembleMatrixLinear_q_point_def)
  then show ?thesis
    by (simp add: AssembleMatrixLinear_call_def Let_def)
qed

text \<open>
  Claim C1. In the nonlinear assembler the cell matrix is the zeroed buffer to which every
  quadrature point \<open>q\<close> adds, through \<open>fill_cell_matrix\<close>, the operator
  \<open>stress_strain_tensor (2 * nu * h) (nu * h)\<close>, where \<open>nu = B * eps2 ^ (-1/3)\<close>,
  \<open>eps2 = trace(eps)^2 - second_invariant(eps)\<close>, \<open>eps\<close> is the strain of the velocity
  gradient at \<open>q\<close>, \<open>B = 0.5 * (A0_cold * exp(-Q_cold / (idealgas * Temp))) ^ (-1/3)\<close> and
  \<open>h\<close> is the thickness at the quadrature point \<open>q\<close>. It holds whatever the helpers of
  EllipticSystems compute, for an assembler whose scratch vector has the size the
  constructor gives it, on a cell with that many quadrature points.
\<close>

theorem nonlinear_assembly_viscosity:
  assumes "length (get_quadrature_points fev) = nl_n_q_points a"
    and "length (nl_thickness_values a) = nl_n_q_points a"
  shows "snd (AssembleMatrixNonLinear_call es pc a fev m) =
     fold (\<lambda>q cm.
             let eps = get_strain es (get_function_gradients fev (nl_solution a) ! q);
                 nu = viscosity_closure pc eps;
                 h = fn_value (nl_thickness a) (get_quadrature_points fev ! q)
             in fill_cell_matrix es cm
                  (stress_strain_tensor es (Finite 2 * nu * h) (nu * h)) fev q
                  (nl_dofs_per_cell a))
       [0..<nl_n_q_points a] (full_matrix_assign m (Finite 0))"
  by (rule AssembleMatrixNonLinear_call_fold [OF assms])

theorem nonlinear_assembly_viscosity_witness:
  "length (get_quadrature_points example_fe_values) = nl_n_q_points example_nonlinear
   \<and> length (nl_thickness_values example_nonlinear) = nl_n_q_points example_nonlinear
   \<and> snd (AssembleMatrixNonLinear_call EllipticSystems example_constants example_nonlinear
            example_fe_values [[Finite 7, Finite 7], [Finite 7, Finite 7]])
     = [[Finite 4, Finite 0], [Finite 0, Finite 1]]"
proof -
  have h1: "length (get_quadrature_points example_fe_values) = nl_n_q_points example_nonlinear"
    by (simp add: example_fe_values_def example_nonlinear_def AssembleMatrixNonLinear_init_def)
  have h2: "length (nl_thickness_values example_nonlinear) = nl_n_q_points example_nonlinear"
    by (simp add: example_nonlinear_def AssembleMatrixNonLinear_init_def)
  show ?thesis
    using h1 h2
    apply (simp add: nonlinear_assembly_viscosity [OF h1 h2])
    apply (simp add: example_fe_values_def example_nonlinear_def AssembleMatrixNonLinear_init_def
        viscosity_closure_def flow_law_coefficient_def effective_strain_rate_squared_def
        EllipticSystems_def ES_get_strain_def first_invariant_def second_invariant_def
        example_constants_def ConstantFunction_def full_matrix_assign_def
        ES_stress_strain_tensor_def ES_fill_cell_matrix_def shape_strain_def contract_unfold
        tensor2_at_def power2_eq_square upt_rec)
    done
qed


section \<open>The cell matrix is reset\<close>

text \<open>
  Claim C10. Both assemblers give the same result on two buffers of the same shape,
  whatever the buffers held: the matrix they return is the zeroed buffer with the
  contributions of the quadrature points added, and the assembler they leave differs
  from the one they were called on in its scratch vectors only.
\<close>

theorem assembler_resets_cell_matrix:
  assumes "map length m1 = map length m2"
  shows "AssembleMatrixLinear_call es al fev m1 = AssembleMatrixLinear_call es al fev m2
       \<and> AssembleMatrixNonLinear_call es pc an fev m1
           = AssembleMatrixNonLinear_call es pc an fev m2
       \<and> snd (AssembleMatrixLinear_call es al fev m1)
           = fold (AssembleMatrixLinear_q_point es (fst (AssembleMatrixLinear_call es al fev m1))
                     fev)
               [0..<lin_n_q_points al] (map (map (\<lambda>_. Finite 0)) m1)
       \<and> snd (AssembleMatrixNonLinear_call es pc an fev m1)
           = fold (AssembleMatrixNonLinear_q_point es pc
                     (fst (AssembleMatrixNonLinear_call es pc an fev m1)) fev)
               [0..<nl_n_q_points an] (map (map (\<lambda>_. Finite 0)) m1)
       \<and> fst (AssembleMatrixLinear_call es al fev m1)
           = al\<lparr>lin_thickness_values :=
                   value_list (lin_thickness al) (get_quadrature_points fev)
                     (lin_thickness_values al),
                 lin_nu_values :=
                   value_list (lin_nu al) (get_quadrature_points fev) (lin_nu_values al)\<rparr>
       \<and> fst (AssembleMatrixNonLinear_call es pc an fev m1)
           = an\<lparr>nl_thickness_values :=
                   value_list (nl_thickness an) (get_quadrature_points fev)
                     (nl_thickness_values an),
                 nl_velocity_gradient_values :=
                   get_function_gradients fev (nl_solution an)\<rparr>"
  using full_matrix_assign_shape [OF assms, of "Finite 0"]
  by (simp add: AssembleMatrixLinear_call_def AssembleMatrixNonLinear_call_def Let_def
      full_matrix_assign_def)

theorem assembler_resets_cell_matrix_witness:
  "map length [[Finite 7, Finite 7], [Finite 7, Finite 7]]
     = map length [[Finite 0, Finite 1], [Finite 2, NaN]]
   \<and> AssembleMatrixLinear_call EllipticSystems example_linear example_fe_values
        [[Finite 7, Finite 7], [Finite 7, Finite 7]]
     = AssembleMatrixLinear_call EllipticSystems example_linear example_fe_values
        [[Finite 0, Finite 1], [Finite 2, NaN]]
   \<and> AssembleMatrixNonLinear_call EllipticSystems example_constants example_nonlinear
        example_fe_values [[Finite 7, Finite 7], [Finite 7, Finite 7]]
     = AssembleMatrixNonLinear_call EllipticSystems example_constants example_nonlinear
        example_fe_values [[Finite 0, Finite 1], [Finite 2, NaN]]"
proof -
  have h: "map length [[Finite 7, Finite 7], [Finite 7, Finite 7]]
     = map length [[Finite 0, Finite 1], [Finite 2, NaN]]"
    by simp
  show ?thesis
    using h assembler_resets_cell_matrix [OF h, of EllipticSystems example_linear
        example_fe_values example_constants example_nonlinear]
    by blast
qed


section \<open>Symmetry of the local stiffness matrix\<close>



















section \<open>The load vector of a cell\<close>

lemma assemble_system_q_point_driving_stress:
  assumes "q < length tv0" "q < length gv0" "q < length points"
  shows "assemble_system_q_point es pc fel fev (value_list thick points tv0)
       (gradient_list surf points gv0) q r
     = fill_cell_rhs_field es r (driving_stress pc thick surf (points ! q)) fel fev q
         (dofs_per_cell fel)"
  using assms
  by (simp add: assemble_system_q_point_def driving_stress_def value_list_def gradient_list_def
      fill_list_nth uminus_mult_dbl)

lemma assemble_system_face_q_point_stress:
  "assemble_system_face_q_point es pc surf thick fel ffv
     = (\<lambda>q r. fill_cell_rhs_neumann es r
         (calving_front_stress pc thick surf (quadrature_point ffv q) (normal_vector ffv q))
         fel ffv q (dofs_per_cell fel))"
  by (intro ext) (simp add: assemble_system_face_q_point_def calving_front_stress_def Let_def
      power2_eq_square mult.assoc)

lemma cell_rhs_assemble_system_cell:
  "cell_rhs (assemble_system_cell es pc s c st)
     = fold (assemble_system_face es pc (surface s) (thickness s) (fe s)
               (face_quadrature_formula_size s) c)
         [0..<faces_per_cell]
         (fold (assemble_system_q_point es pc (fe s) (cell_fe_values c)
                  (value_list (thickness s) (get_quadrature_points (cell_fe_values c))
                     (thickness_values st))
                  (gradient_list (surface s) (get_quadrature_points (cell_fe_values c))
                     (surface_gradient_values st)))
            [0..<quadrature_formula_size s] (vector_assign (cell_rhs st) (Finite 0)))"
  by (simp add: assemble_system_cell_def Let_def split_def)

lemma body_force_fold:
  assumes "length points = n" "length tv0 = n" "length gv0 = n"
  shows "fold (assemble_system_q_point es pc fel fev (value_list thick points tv0)
                 (gradient_list surf points gv0)) [0..<n] r
       = fold (\<lambda>q r'. fill_cell_rhs_field es r' (driving_stress pc thick surf (points ! q))
                         fel fev q (dofs_per_cell fel)) [0..<n] r"
  using assms
  by (intro fold_cong refl ext) (simp add: assemble_system_q_point_driving_stress)

text \<open>
  Claim C2. In the loop over the faces of a cell, a face adds to the load vector only if
  it lies on the boundary and carries boundary indicator 1; it then adds, at each of its
  quadrature points \<open>x\<close>, the stress \<open>0.5 * g * (rho_ice * h(x)^2 - rho_water * b(x)^2) * n\<close>
  through \<open>fill_cell_rhs_neumann\<close>, with \<open>b(x) = surface(x) - thickness(x)\<close> and \<open>n\<close> the
  normal vector at \<open>x\<close>; any other face leaves the load vector as it is. The load vector
  of the cell is the body-force vector passed through this loop over its four faces.
  It holds whatever the helpers of EllipticSystems compute.
\<close>

theorem calving_front_neumann_load:
  "assemble_system_face es pc surf thick fel n_face_q_points c face_number r
     = (if at_boundary (face c face_number) \<and> boundary_indicator (face c face_number) = 1
        then fold (\<lambda>q r'. fill_cell_rhs_neumann es r'
                            (calving_front_stress pc thick surf
                               (quadrature_point (face_fe_values (face c face_number)) q)
                               (normal_vector (face_fe_values (face c face_number)) q))
                            fel (face_fe_values (face c face_number)) q (dofs_per_cell fel))
               [0..<n_face_q_points] r
        else r)
   \<and> cell_rhs (assemble_system_cell es pc s c st)
     = fold (assemble_system_face es pc (surface s) (thickness s) (fe s)
               (face_quadrature_formula_size s) c)
         [0..<faces_per_cell]
         (fold (assemble_system_q_point es pc (fe s) (cell_fe_values c)
                  (value_list (thickness s) (get_quadrature_points (cell_fe_values c))
                     (thickness_values st))
                  (gradient_list (surface s) (get_quadrature_points (cell_fe_values c))
                     (surface_gradient_values st)))
            [0..<quadrature_formula_size s] (vector_assign (cell_rhs st) (Finite 0)))"
  by (simp add: assemble_system_face_def assemble_system_face_q_point_stress
      cell_rhs_assemble_system_cell)

theorem calving_front_neumann_load_witness:
  "assemble_system_face EllipticSystems example_constants (surface example_shelf)
     (thickness example_shelf) example_fe 1 example_cell 0 [Finite 0, Finite 0]
     = [Finite 13220, Finite 0]
   \<and> assemble_system_face EllipticSystems example_constants (surface example_shelf)
       (thickness example_shelf) example_fe 1 example_cell 1 [Finite 0, Finite 0]
     = [Finite 0, Finite 0]
   \<and> assemble_system_face EllipticSystems example_constants (surface example_shelf)
       (thickness example_shelf) example_fe 1 interior_cell 0 [Finite 0, Finite 0]
     = [Finite 0, Finite 0]"
  by (simp add: calving_front_neumann_load [THEN conjunct1] example_defs ES_defs
      calving_front_stress_def scale_def Let_def power2_eq_square upt_rec)

text \<open>
  Claim C4. At every quadrature point \<open>x\<close> of a cell the body force handed to
  \<open>fill_cell_rhs_field\<close> is the driving stress \<open>- rho_ice * g * h(x) * grad s(x)\<close>
  (whatever the helpers compute). With the helper of the specification, on a cell where
  the gradient of the surface is zero at every quadrature point and the thickness, the
  constants and the shape data are finite, the body force leaves every load vector
  unchanged: its contribution is zero whatever the thickness.
\<close>

theorem driving_stress_load:
  assumes "length (get_quadrature_points (cell_fe_values c)) = quadrature_formula_size s"
    and "length (thickness_values st) = quadrature_formula_size s"
    and "length (surface_gradient_values st) = quadrature_formula_size s"
  shows "cell_rhs (assemble_system_cell es pc s c st)
     = fold (assemble_system_face es pc (surface s) (thickness s) (fe s)
               (face_quadrature_formula_size s) c)
         [0..<faces_per_cell]
         (fold (\<lambda>q r. fill_cell_rhs_field es r
                         (driving_stress pc (thickness s) (surface s)
                            (get_quadrature_points (cell_fe_values c) ! q))
                         (fe s) (cell_fe_values c) q (dofs_per_cell (fe s)))
            [0..<quadrature_formula_size s] (vector_assign (cell_rhs st) (Finite 0)))
   \<and> ((\<forall>q<quadrature_formula_size s.
          fn_gradient (surface s) (get_quadrature_points (cell_fe_values c) ! q)
            = (Finite 0, Finite 0)
          \<and> is_finite (fn_value (thickness s) (get_quadrature_points (cell_fe_values c) ! q))
          \<and> is_finite (JxW (cell_fe_values c) q)
          \<and> (\<forall>i<dofs_per_cell (fe s). is_finite (shape_value (cell_fe_values c) i q)))
        \<and> is_finite (rho_ice pc) \<and> is_finite (gravity pc)
       \<longrightarrow> (\<forall>r. fold (\<lambda>q r. fill_cell_rhs_field EllipticSystems r
                                (driving_stress pc (thickness s) (surface s)
                                   (get_quadrature_points (cell_fe_values c) ! q))
                                (fe s) (cell_fe_values c) q (dofs_per_cell (fe s)))
                   [0..<quadrature_formula_size s] r = r))"
proof (intro conjI impI allI)
  show "cell_rhs (assemble_system_cell es pc s c st)
     = fold (assemble_system_face es pc (surface s) (thickness s) (fe s)
               (face_quadrature_formula_size s) c)
         [0..<faces_per_cell]
         (fold (\<lambda>q r. fill_cell_rhs_field es r
                         (driving_stress pc (thickness s) (surface s)
                            (get_quadrature_points (cell_fe_values c) ! q))
                         (fe s) (cell_fe_values c) q (dofs_per_cell (fe s)))
            [0..<quadrature_formula_size s] (vector_assign (cell_rhs st) (Finite 0)))"
    by (simp only: cell_rhs_assemble_system_cell body_force_fold [OF assms])
next
  fix r
  assume h: "(\<forall>q<quadrature_formula_size s.
          fn_gradient (surface s) (get_quadrature_points (cell_fe_values c) ! q)
            = (Finite 0, Finite 0)
          \<and> is_finite (fn_value (thickness s) (get_quadrature_points (cell_fe_values c) ! q))
          \<and> is_finite (JxW (cell_fe_values c) q)
          \<and> (\<forall>i<dofs_per_cell (fe s). is_finite (shape_value (cell_fe_values c) i q)))
        \<and> is_finite (rho_ice pc) \<and> is_finite (gravity pc)"
  show "fold (\<lambda>q r. fill_cell_rhs_field EllipticSystems r
                                (driving_stress pc (thickness s) (surface s)
                                   (get_quadrature_points (cell_fe_values c) ! q))
                                (fe s) (cell_fe_values c) q (dofs_per_cell (fe s)))
                   [0..<quadrature_formula_size s] r = r"
  proof (rule fold_unchanged)
    fix q assume "q \<in> set [0..<quadrature_formula_size s]"
    then have q: "q < quadrature_formula_size s" by simp
    have "driving_stress pc (thickness s) (surface s)
            (get_quadrature_points (cell_fe_values c) ! q) = (Finite 0, Finite 0)"
      using h q by (simp add: driving_stress_def scale_zero is_finite_mult is_finite_uminus)
    then show "fill_cell_rhs_field EllipticSystems r
                 (driving_stress pc (thickness s) (surface s)
                    (get_quadrature_points (cell_fe_values c) ! q))
                 (fe s) (cell_fe_values c) q (dofs_per_cell (fe s)) = r"
      using h q by (simp add: ES_simps ES_fill_cell_rhs_field_zero)
  qed
qed

theorem driving_stress_load_witness:
  "cell_rhs (assemble_system_cell EllipticSystems example_constants example_shelf example_cell
               example_assembly)
     = [Finite 13220, Finite 0]
   \<and> fold (\<lambda>q r. fill_cell_rhs_field EllipticSystems r
                    (driving_stress example_constants (thickness example_shelf)
                       (surface example_shelf)
                       (get_quadrature_points (cell_fe_values example_cell) ! q))
                    (fe example_shelf) (cell_fe_values example_cell) q
                    (dofs_per_cell (fe example_shelf)))
       [0..<quadrature_formula_size example_shelf] [Finite 5, Finite 6]
     = [Finite 5, Finite 6]"
proof -
  note t = driving_stress_load [OF example_wf(1,2,3), of EllipticSystems example_constants]
  have flat: "(\<forall>q<quadrature_formula_size example_shelf.
          fn_gradient (surface example_shelf)
            (get_quadrature_points (cell_fe_values example_cell) ! q) = (Finite 0, Finite 0)
          \<and> is_finite (fn_value (thickness example_shelf)
                         (get_quadrature_points (cell_fe_values example_cell) ! q))
          \<and> is_finite (JxW (cell_fe_values example_cell) q)
          \<and> (\<forall>i<dofs_per_cell (fe example_shelf).
                is_finite (shape_value (cell_fe_values example_cell) i q)))
        \<and> is_finite (rho_ice example_constants) \<and> is_finite (gravity example_constants)"
    by (simp add: example_defs is_finite_def)
  have zero: "fold (\<lambda>q r. fill_cell_rhs_field EllipticSystems r
                    (driving_stress example_constants (thickness example_shelf)
                       (surface example_shelf)
                       (get_quadrature_points (cell_fe_values example_cell) ! q))
                    (fe example_shelf) (cell_fe_values example_cell) q
                    (dofs_per_cell (fe example_shelf)))
       [0..<quadrature_formula_size example_shelf] r = r" for r
    using t [THEN conjunct2] flat by blast
  have "cell_rhs (assemble_system_cell EllipticSystems example_constants example_shelf
                    example_cell example_assembly)
          = [Finite 13220, Finite 0]"
    unfolding t [THEN conjunct1] zero
    by (simp add: example_defs ES_defs assemble_system_face_def
        assemble_system_face_q_point_def faces_per_cell_def vector_assign_def scale_def Let_def
        upt_rec)
  with zero show ?thesis by blast
qed


section \<open>An element without ice\<close>

lemma linear_zero_thickness:
  assumes "length (get_quadrature_points fev) = n"
    and "\<forall>q<n. fn_value thick (get_quadrature_points fev ! q) = Finite 0
              \<and> is_finite (fn_value visc (get_quadrature_points fev ! q))
              \<and> finite_fe_values fev dofs q"
  shows "snd (AssembleMatrixLinear_call EllipticSystems
                (AssembleMatrixLinear_init n dofs thick visc) fev m)
         = full_matrix_assign m (Finite 0)"
  using assms
  apply (simp only: AssembleMatrixLinear_call_fold)
  apply (rule fold_unchanged)
  apply (simp add: AssembleMatrixLinear_init_def Let_def ES_simps value_list_def fill_list_nth
      mult_zero_finite ES_stress_strain_zero ES_fill_cell_matrix_zero)
  done

lemma nonlinear_zero_thickness:
  assumes "length (get_quadrature_points fev) = n"
    and "\<forall>q<n. fn_value thick (get_quadrature_points fev ! q) = Finite 0
              \<and> finite_fe_values fev dofs q"
    and "is_finite (B pc)"
    and "\<forall>q<n. \<exists>e>0. effective_strain_rate_squared
                        (ES_get_strain (get_function_gradients fev sol ! q)) = Finite e"
  shows "snd (AssembleMatrixNonLinear_call EllipticSystems pc
                (AssembleMatrixNonLinear_init n dofs thick sol) fev m)
         = full_matrix_assign m (Finite 0)"
proof -
  have wf: "length (get_quadrature_points fev)
              = nl_n_q_points (AssembleMatrixNonLinear_init n dofs thick sol)"
    "length (nl_thickness_values (AssembleMatrixNonLinear_init n dofs thick sol))
       = nl_n_q_points (AssembleMatrixNonLinear_init n dofs thick sol)"
    using assms(1) by (simp_all add: AssembleMatrixNonLinear_init_def)
  have fin: "is_finite (viscosity_closure pc
               (ES_get_strain (get_function_gradients fev sol ! q)))" if "q < n" for q
    using assms(3,4) that viscosity_closure_finite by blast
  show ?thesis
    using assms(2) fin
    apply (simp only: AssembleMatrixNonLinear_call_fold [OF wf])
    apply (rule fold_unchanged)
    apply (simp add: AssembleMatrixNonLinear_init_def Let_def ES_simps mult_zero_finite
        ES_stress_strain_zero ES_fill_cell_matrix_zero is_finite_mult mult.assoc)
    done
qed

lemma calving_front_stress_zero_thickness:
  assumes "fn_value thick x = Finite 0" and "is_finite (rho_ice pc)"
  shows "calving_front_stress pc thick surf x n = water_pressure_stress pc surf x n"
  using assms
  by (simp add: calving_front_stress_def water_pressure_stress_def Let_def power2_eq_square
      mult_zero_finite zero_minus_dbl minus_zero_dbl mult_uminus_dbl)

lemma driving_stress_zero_thickness:
  assumes "fn_value thick x = Finite 0" and "is_finite (rho_ice pc)" and "is_finite (gravity pc)"
    and "is_finite (fst (fn_gradient surf x))" and "is_finite (snd (fn_gradient surf x))"
  shows "driving_stress pc thick surf x = (Finite 0, Finite 0)"
  using assms
  by (simp add: driving_stress_def scale_def mult_zero_finite is_finite_mult)

lemma face_fold_zero_thickness:
  assumes "\<forall>q<n. fn_value thick (quadrature_point (face_fe_values (face c f)) q) = Finite 0"
    and "is_finite (rho_ice pc)"
  shows "assemble_system_face EllipticSystems pc surf thick fel n c f r
       = (if calving_front_face c f
          then fold (\<lambda>q r'. ES_fill_cell_rhs_neumann r'
                              (water_pressure_stress pc surf
                                 (quadrature_point (face_fe_values (face c f)) q)
                                 (normal_vector (face_fe_values (face c f)) q))
                              fel (face_fe_values (face c f)) q (dofs_per_cell fel))
                 [0..<n] r
          else r)"
proof -
  have "fold (assemble_system_face_q_point EllipticSystems pc surf thick fel
                (face_fe_values (face c f))) [0..<n] r
        = fold (\<lambda>q r'. ES_fill_cell_rhs_neumann r'
                              (water_pressure_stress pc surf
                                 (quadrature_point (face_fe_values (face c f)) q)
                                 (normal_vector (face_fe_values (face c f)) q))
                              fel (face_fe_values (face c f)) q (dofs_per_cell fel))
                 [0..<n] r"
    using assms
    by (intro fold_cong refl ext)
      (simp add: assemble_system_face_q_point_stress ES_simps
        calving_front_stress_zero_thickness)
  then show ?thesis
    by (simp add: assemble_system_face_def calving_front_face_def)
qed

text \<open>
  Claim C5, as amended. On a cell where the thickness is zero at every quadrature point
  of the cell and of its faces, and the other data are finite: the linear assembler
  returns the zero matrix; the nonlinear assembler returns the zero matrix provided that
  the flow-law coefficient is finite and the effective strain rate squared is positive
  at every quadrature point; the driving stress adds nothing to the load vector; and
  every face on the calving front adds \<open>- 0.5 * g * rho_water * s(x)^2 * n\<close> at each of
  its quadrature points, \<open>s\<close> being the surface elevation. The load vector is zero when
  the cell has no face on the calving front.
\<close>

theorem zero_thickness_element:
  assumes "length (get_quadrature_points (cell_fe_values c)) = quadrature_formula_size s"
    and "length (thickness_values st) = quadrature_formula_size s"
    and "length (surface_gradient_values st) = quadrature_formula_size s"
    and "\<forall>q<quadrature_formula_size s.
           fn_value (thickness s) (get_quadrature_points (cell_fe_values c) ! q) = Finite 0
           \<and> is_finite (fn_value visc (get_quadrature_points (cell_fe_values c) ! q))
           \<and> is_finite (fst (fn_gradient (surface s)
                                (get_quadrature_points (cell_fe_values c) ! q)))
           \<and> is_finite (snd (fn_gradient (surface s)
                                (get_quadrature_points (cell_fe_values c) ! q)))
           \<and> finite_fe_values (cell_fe_values c) (dofs_per_cell (fe s)) q"
    and "\<forall>f<faces_per_cell. \<forall>q<face_quadrature_formula_size s.
           fn_value (thickness s) (quadrature_point (face_fe_values (face c f)) q) = Finite 0"
    and "is_finite (rho_ice pc)" and "is_finite (gravity pc)"
  shows "snd (AssembleMatrixLinear_call EllipticSystems
                (AssembleMatrixLinear_init (quadrature_formula_size s) (dofs_per_cell (fe s))
                   (thickness s) visc)
                (cell_fe_values c) m)
           = full_matrix_assign m (Finite 0)
       \<and> (is_finite (B pc)
            \<and> (\<forall>q<quadrature_formula_size s.
                  \<exists>e>0. effective_strain_rate_squared
                           (ES_get_strain (get_function_gradients (cell_fe_values c) sol ! q))
                         = Finite e)
          \<longrightarrow> snd (AssembleMatrixNonLinear_call EllipticSystems pc
                       (AssembleMatrixNonLinear_init (quadrature_formula_size s)
                          (dofs_per_cell (fe s)) (thickness s) sol)
                       (cell_fe_values c) m)
                = full_matrix_assign m (Finite 0))
       \<and> cell_rhs (assemble_system_cell EllipticSystems pc s c st)
           = fold (\<lambda>f r. if calving_front_face c f
                          then fold (\<lambda>q r'. ES_fill_cell_rhs_neumann r'
                                      (water_pressure_stress pc (surface s)
                                         (quadrature_point (face_fe_values (face c f)) q)
                                         (normal_vector (face_fe_values (face c f)) q))
                                      (fe s) (face_fe_values (face c f)) q
                                      (dofs_per_cell (fe s)))
                                 [0..<face_quadrature_formula_size s] r
                          else r)
               [0..<faces_per_cell] (vector_assign (cell_rhs st) (Finite 0))
       \<and> ((\<forall>f<faces_per_cell. \<not> calving_front_face c f)
          \<longrightarrow> cell_rhs (assemble_system_cell EllipticSystems pc s c st)
                = vector_assign (cell_rhs st) (Finite 0))"
proof -
  let ?fev = "cell_fe_values c" and ?n = "quadrature_formula_size s"
  let ?r0 = "vector_assign (cell_rhs st) (Finite 0)"
  have lin: "snd (AssembleMatrixLinear_call EllipticSystems
                (AssembleMatrixLinear_init ?n (dofs_per_cell (fe s)) (thickness s) visc)
                ?fev m) = full_matrix_assign m (Finite 0)"
    using assms(1,4) by (intro linear_zero_thickness) simp_all
  have nonlin: "snd (AssembleMatrixNonLinear_call EllipticSystems pc
                       (AssembleMatrixNonLinear_init ?n (dofs_per_cell (fe s)) (thickness s) sol)
                       ?fev m) = full_matrix_assign m (Finite 0)"
    if "is_finite (B pc)
            \<and> (\<forall>q<?n. \<exists>e>0. effective_strain_rate_squared
                           (ES_get_strain (get_function_gradients ?fev sol ! q)) = Finite e)"
    using assms(1,4) that by (intro nonlinear_zero_thickness) simp_all
  have body: "fold (\<lambda>q r. fill_cell_rhs_field EllipticSystems r
                         (driving_stress pc (thickness s) (surface s)
                            (get_quadrature_points ?fev ! q))
                         (fe s) ?fev q (dofs_per_cell (fe s))) [0..<?n] ?r0 = ?r0"
    using assms(4,6,7)
    by (intro fold_unchanged)
      (simp add: driving_stress_zero_thickness ES_simps ES_fill_cell_rhs_field_zero
        finite_fe_values_def)
  have faces: "fold (assemble_system_face EllipticSystems pc (surface s) (thickness s) (fe s)
                       (face_quadrature_formula_size s) c) [0..<faces_per_cell] ?r0
             = fold (\<lambda>f r. if calving_front_face c f
                          then fold (\<lambda>q r'. ES_fill_cell_rhs_neumann r'
                                      (water_pressure_stress pc (surface s)
                                         (quadrature_point (face_fe_values (face c f)) q)
                                         (normal_vector (face_fe_values (face c f)) q))
                                      (fe s) (face_fe_values (face c f)) q
                                      (dofs_per_cell (fe s)))
                                 [0..<face_quadrature_formula_size s] r
                          else r)
               [0..<faces_per_cell] ?r0"
    using assms(5,6)
    by (intro fold_cong refl ext) (simp add: face_fold_zero_thickness)
  have load: "cell_rhs (assemble_system_cell EllipticSystems pc s c st)
           = fold (\<lambda>f r. if calving_front_face c f
                          then fold (\<lambda>q r'. ES_fill_cell_rhs_neumann r'
                                      (water_pressure_stress pc (surface s)
                                         (quadrature_point (face_fe_values (face c f)) q)
                                         (normal_vector (face_fe_values (face c f)) q))
                                      (fe s) (face_fe_values (face c f)) q
                                      (dofs_per_cell (fe s)))
                                 [0..<face_quadrature_formula_size s] r
                          else r)
               [0..<faces_per_cell] ?r0"
    by (simp only: cell_rhs_assemble_system_cell body_force_fold [OF assms(1,2,3)] body faces)
  have none: "cell_rhs (assemble_system_cell EllipticSystems pc s c st) = ?r0"
    if "\<forall>f<faces_per_cell. \<not> calving_front_face c f"
    unfolding load using that by (intro fold_unchanged) simp
  from lin nonlin load none show ?thesis by blast
qed

theorem zero_thickness_element_witness:
  "snd (AssembleMatrixLinear_call EllipticSystems
          (AssembleMatrixLinear_init 1 2 (ConstantFunction (Finite 0))
             (ConstantFunction (Finite 3)))
          example_fe_values [[Finite 7, Finite 7], [Finite 7, Finite 7]])
     = [[Finite 0, Finite 0], [Finite 0, Finite 0]]
   \<and> snd (AssembleMatrixNonLinear_call EllipticSystems example_constants
            (AssembleMatrixNonLinear_init 1 2 (ConstantFunction (Finite 0))
               [Finite 0, Finite 0])
            example_fe_values [[Finite 7, Finite 7], [Finite 7, Finite 7]])
     = [[Finite 0, Finite 0], [Finite 0, Finite 0]]
   \<and> cell_rhs (assemble_system_cell EllipticSystems example_constants ice_free_shelf
                 example_cell example_assembly)
     = [Finite (- 5120), Finite 0]
   \<and> cell_rhs (assemble_system_cell EllipticSystems example_constants ice_free_shelf
                 interior_cell example_assembly)
     = [Finite 0, Finite 0]"
proof -
  have zero: "\<forall>q<quadrature_formula_size ice_free_shelf.
           fn_value (thickness ice_free_shelf)
             (get_quadrature_points (cell_fe_values c) ! q) = Finite 0
           \<and> is_finite (fn_value (ConstantFunction (Finite 3))
                          (get_quadrature_points (cell_fe_values c) ! q))
           \<and> is_finite (fst (fn_gradient (surface ice_free_shelf)
                                (get_quadrature_points (cell_fe_values c) ! q)))
           \<and> is_finite (snd (fn_gradient (surface ice_free_shelf)
                                (get_quadrature_points (cell_fe_values c) ! q)))
           \<and> finite_fe_values (cell_fe_values c) (dofs_per_cell (fe ice_free_shelf)) q"
    if "cell_fe_values c = example_fe_values" for c
    using that by (simp add: example_defs is_finite_def finite_fe_values_def)
  have zero_face: "\<forall>f<faces_per_cell. \<forall>q<face_quadrature_formula_size ice_free_shelf.
           fn_value (thickness ice_free_shelf)
             (quadrature_point (face_fe_values (face c f)) q) = Finite 0" for c
    by (simp add: example_defs)
  have fin: "is_finite (rho_ice example_constants)" "is_finite (gravity example_constants)"
    by (simp_all add: example_defs is_finite_def)
  have c1: "cell_fe_values example_cell = example_fe_values"
    and c2: "cell_fe_values interior_cell = example_fe_values"
    by (simp_all add: example_defs)
  note at_front = zero_thickness_element [OF example_wf(4,5,6) zero [OF c1] zero_face fin,
      of "[[Finite 7, Finite 7], [Finite 7, Finite 7]]" "[Finite 0, Finite 0]"]
  note inside = zero_thickness_element [OF example_wf(7,5,6) zero [OF c2] zero_face fin,
      of "[[Finite 7, Finite 7], [Finite 7, Finite 7]]" "[Finite 0, Finite 0]"]
  have moving: "is_finite (B example_constants)
            \<and> (\<forall>q<quadrature_formula_size ice_free_shelf.
                  \<exists>e>0. effective_strain_rate_squared
                           (ES_get_strain (get_function_gradients (cell_fe_values example_cell)
                                             [Finite 0, Finite 0] ! q))
                         = Finite e)"
    by (intro conjI)
      (simp add: example_B is_finite_def,
       simp add: example_defs effective_strain_rate_squared_def ES_get_strain_def
         first_invariant_def second_invariant_def power2_eq_square)
  have no_front: "\<forall>f<faces_per_cell. \<not> calving_front_face interior_cell f"
    by (simp add: calving_front_face_def example_defs)
  have a: "snd (AssembleMatrixLinear_call EllipticSystems
          (AssembleMatrixLinear_init 1 2 (ConstantFunction (Finite 0))
             (ConstantFunction (Finite 3)))
          example_fe_values [[Finite 7, Finite 7], [Finite 7, Finite 7]])
     = [[Finite 0, Finite 0], [Finite 0, Finite 0]]"
    using at_front [THEN conjunct1]
    by (simp add: ice_free_shelf_def example_shelf_def example_fe_def example_cell_def
        full_matrix_assign_def)
  have b: "snd (AssembleMatrixNonLinear_call EllipticSystems example_constants
            (AssembleMatrixNonLinear_init 1 2 (ConstantFunction (Finite 0))
               [Finite 0, Finite 0])
            example_fe_values [[Finite 7, Finite 7], [Finite 7, Finite 7]])
     = [[Finite 0, Finite 0], [Finite 0, Finite 0]]"
    using at_front [THEN conjunct2, THEN conjunct1, THEN mp, OF moving]
    by (simp add: ice_free_shelf_def example_shelf_def example_fe_def example_cell_def
        full_matrix_assign_def)
  have c: "cell_rhs (assemble_system_cell EllipticSystems example_constants ice_free_shelf
                 example_cell example_assembly)
     = [Finite (- 5120), Finite 0]"
    unfolding at_front [THEN conjunct2, THEN conjunct2, THEN conjunct1]
    by (simp add: example_defs ES_defs calving_front_face_def water_pressure_stress_def
        faces_per_cell_def vector_assign_def scale_def upt_rec power2_eq_square)
  have d: "cell_rhs (assemble_system_cell EllipticSystems example_constants ice_free_shelf
                 interior_cell example_assembly)
     = [Finite 0, Finite 0]"
    using inside [THEN conjunct2, THEN conjunct2, THEN conjunct2, THEN mp, OF no_front]
    by (simp add: example_assembly_def vector_assign_def)
  from a b c d show ?thesis by blast
qed

text \<open>
  The claim as stated fails: without ice, the cell whose face 0 lies on the calving
  front at surface elevation 1 has the load \<open>- 0.5 * 10 * 1024 * 1\<close> on its first degree
  of freedom, and for a velocity with zero strain the nonlinear assembler multiplies
  the thickness 0 by an infinite viscosity.
\<close>

theorem zero_thickness_load_counterexample:
  "thickness ice_free_shelf = ConstantFunction (Finite 0)
   \<and> cell_rhs (assemble_system_cell EllipticSystems example_constants ice_free_shelf
                 example_cell example_assembly)
     = [Finite (- 5120), Finite 0]
   \<and> snd (AssembleMatrixNonLinear_call EllipticSystems example_constants
            (AssembleMatrixNonLinear_init 1 2 (thickness ice_free_shelf) [Finite 0, Finite 0])
            still_fe_values [[Finite 0, Finite 0], [Finite 0, Finite 0]])
     = [[NaN, NaN], [NaN, NaN]]"
proof (intro conjI)
  show "thickness ice_free_shelf = ConstantFunction (Finite 0)"
    by (simp add: ice_free_shelf_def example_shelf_def)
  show "cell_rhs (assemble_system_cell EllipticSystems example_constants ice_free_shelf
                 example_cell example_assembly)
     = [Finite (- 5120), Finite 0]"
    by (simp add: cell_rhs_assemble_system_cell example_defs ES_defs assemble_system_face_def
        assemble_system_face_q_point_def assemble_system_q_point_def faces_per_cell_def
        value_list_def gradient_list_def fill_list_def vector_assign_def scale_def Let_def
        upt_rec)
  show "snd (AssembleMatrixNonLinear_call EllipticSystems example_constants
            (AssembleMatrixNonLinear_init 1 2 (thickness ice_free_shelf) [Finite 0, Finite 0])
            still_fe_values [[Finite 0, Finite 0], [Finite 0, Finite 0]])
     = [[NaN, NaN], [NaN, NaN]]"
    by (simp add: AssembleMatrixNonLinear_call_def AssembleMatrixNonLinear_q_point_def
        example_defs ES_defs B_def first_invariant_def second_invariant_def
        value_list_def fill_list_def full_matrix_assign_def Let_def upt_rec)
qed


section \<open>The value of the ice surface\<close>

text \<open>
  Claim C9. On finite bed and thickness values, with a water density that is not zero,
  \<open>IceSurface::value\<close> is the larger of \<open>bed + thickness\<close> and
  \<open>(1 - rho_ice / rho_water) * thickness\<close>, and it does not depend on the component.
\<close>

theorem IceSurface_value_max:
  assumes "fn_value (surface_bed srf) x = Finite b"
    and "fn_value (surface_thickness srf) x = Finite h"
    and "rho_ice pc = Finite ri" and "rho_water pc = Finite rw" and "rw \<noteq> 0"
  shows "IceSurface_value pc srf x component = Finite (max (b + h) ((1 - ri / rw) * h))
       \<and> IceSurface_value pc srf x component = IceSurface_value pc srf x component'"
  using assms by (simp add: IceSurface_value_def Let_def std_max_def max_def)

theorem IceSurface_value_max_witness:
  "fn_value (surface_bed example_surface) (Finite 0, Finite 0) = Finite (- 100)
   \<and> fn_value (surface_thickness example_surface) (Finite 0, Finite 0) = Finite 1024
   \<and> rho_ice example_constants = Finite 917 \<and> rho_water example_constants = Finite 1024
   \<and> (1024::real) \<noteq> 0
   \<and> IceSurface_value example_constants example_surface (Finite 0, Finite 0) 0 = Finite 924
   \<and> IceSurface_value example_constants example_surface (Finite 0, Finite 0) 0
     = IceSurface_value example_constants example_surface (Finite 0, Finite 0) 1"
proof -
  have h1: "fn_value (surface_bed example_surface) (Finite 0, Finite 0) = Finite (- 100)"
    and h2: "fn_value (surface_thickness example_surface) (Finite 0, Finite 0) = Finite 1024"
    by (simp_all add: example_surface_def ConstantFunction_def)
  have h3: "rho_ice example_constants = Finite 917"
    and h4: "rho_water example_constants = Finite 1024"
    by (simp_all add: example_constants_def)
  have h5: "(1024::real) \<noteq> 0" by simp
  note r = IceSurface_value_max [OF h1 h2 h3 h4 h5, of 0 1]
  have r1: "IceSurface_value example_constants example_surface (Finite 0, Finite 0) 0
      = Finite 924"
    using r [THEN conjunct1] by simp
  from h1 h2 h3 h4 h5 r1 r [THEN conjunct2] show ?thesis by blast
qed


section \<open>The nonlinear solver\<close>

lemma nu_guess_constant: "nu_guess pc = constant_viscosity_guess pc"
  by (simp add: nu_guess_def constant_viscosity_guess_def strain_rate_def power2_eq_square)

lemma solve_iteration_picard:
  "solve_iteration d es pc iteration s = picard_iteration d es pc iteration s"
  by (simp add: solve_iteration_def picard_iteration_def picard_assemble_def
      solve_and_distribute_def Let_def nu_guess_constant cong: sum.case_cong)

lemma assemble_cells_solution:
  "assemble_cells d es pc am (s\<lparr>solution := v\<rparr>) = assemble_cells d es pc am s"
proof -
  have "assemble_system_cell es pc (s\<lparr>solution := v\<rparr>) = assemble_system_cell es pc s"
    by (intro ext) (simp add: assemble_system_cell_def)
  then show ?thesis
    by (simp add: assemble_cells_def)
qed

lemma counting_step:
  "picard_iteration counting_dealii es pc i s
     = Inr (picard_assemble counting_dealii es pc i s
              \<lparr>solution := solution s @ [Finite 1000]\<rparr>)"
  by (simp add: picard_iteration_def solve_and_distribute_def counting_dealii_def
      stalling_dealii_def picard_assemble_def assemble_system_def Let_def)

text \<open>
  Claim C3. \<open>solve\<close> is five Picard iterations in sequence, numbered 0 to 4, each
  starting from the solver the one before it left and each a build of the system, a
  linear solve and a redistribution of the constraints. Iteration 0 builds with the
  linear assembler and the viscosity \<open>B * (0.2^2)^(-1/3)\<close>, and the loop over the cells
  then gives the same local and global matrices and load vectors whatever the velocity
  field holds; every later iteration builds with the nonlinear assembler on the
  solution of the solver it starts from. (The Dirichlet step that follows the loop
  over the cells hands the solution vector to deal.II, in every iteration.)
\<close>

theorem picard_five_iterations:
  "solve d es pc s =
     and_then (and_then (and_then (and_then
       (picard_iteration d es pc 0 s)
       (picard_iteration d es pc 1))
       (picard_iteration d es pc 2))
       (picard_iteration d es pc 3))
       (picard_iteration d es pc 4)
   \<and> picard_assemble d es pc 0 s
     = assemble_system d es pc
         (Linear (AssembleMatrixLinear_init (quadrature_formula_size s) (dofs_per_cell (fe s))
                    (thickness s)
                    (ConstantFunction (B pc * pow ((Finite 0.2)\<^sup>2) (Finite (- (1 / 3))))))) s
   \<and> assemble_cells d es pc
       (Linear (AssembleMatrixLinear_init (quadrature_formula_size (s\<lparr>solution := v\<rparr>))
                  (dofs_per_cell (fe (s\<lparr>solution := v\<rparr>))) (thickness (s\<lparr>solution := v\<rparr>))
                  (ConstantFunction (constant_viscosity_guess pc))))
       (s\<lparr>solution := v\<rparr>)
     = assemble_cells d es pc
         (Linear (AssembleMatrixLinear_init (quadrature_formula_size s) (dofs_per_cell (fe s))
                    (thickness s) (ConstantFunction (constant_viscosity_guess pc))))
         s
   \<and> picard_assemble d es pc (Suc k) s
     = assemble_system d es pc
         (NonLinear (AssembleMatrixNonLinear_init (quadrature_formula_size s)
                       (dofs_per_cell (fe s)) (thickness s) (solution s))) s"
proof (intro conjI)
  have "solve d es pc s =
     and_then (picard_iteration d es pc 0 s) (\<lambda>s. and_then (picard_iteration d es pc 1 s)
       (\<lambda>s. and_then (picard_iteration d es pc 2 s) (\<lambda>s. and_then (picard_iteration d es pc 3 s)
         (picard_iteration d es pc 4))))"
    unfolding solve_def upt_5 for_loop_and_then
    by (simp add: solve_iteration_picard and_then_def fun_eq_iff split: sum.splits)
  then show "solve d es pc s =
     and_then (and_then (and_then (and_then
       (picard_iteration d es pc 0 s)
       (picard_iteration d es pc 1))
       (picard_iteration d es pc 2))
       (picard_iteration d es pc 3))
       (picard_iteration d es pc 4)"
    by (simp only: and_then_assoc)
qed (simp_all add: picard_assemble_def constant_viscosity_guess_def assemble_cells_solution)

theorem picard_five_iterations_witness:
  "map_sum id solution (solve counting_dealii EllipticSystems example_constants example_shelf)
     = Inr [Finite 0, Finite 0, Finite 1000, Finite 1000, Finite 1000, Finite 1000, Finite 1000]"
  by (simp add: picard_five_iterations [THEN conjunct1] counting_step and_then_def
      example_shelf_def)


section \<open>The adaptive refinement loop\<close>

lemma setup_system_False: "setup_system d False s = reinit_global_system d s"
  by (simp add: setup_system_def reinit_global_system_def Let_def)

lemma reinit_global_system_twice:
  "reinit_global_system d (reinit_global_system d s) = reinit_global_system d s"
  by (simp add: reinit_global_system_def)

lemma setup_system_True:
  "setup_system d True s =
     (let dh = distribute_dofs d (dof_handler s) (triangulation s) (fe s)
      in reinit_global_system d
           (s\<lparr>dof_handler := dh,
              hanging_node_constraints := rebuild_constraints d dh (hanging_node_constraints s),
              solution := interpolate d dh (boundary_velocity s)
                            (vector_reinit (n_dofs d dh))\<rparr>))"
  by (simp add: setup_system_def reinit_global_system_def rebuild_constraints_def Let_def)

lemma refine_grid_adapted: "refine_grid d s = adapted_mesh d s"
  by (simp add: refine_grid_def adapted_mesh_def setup_system_False rebuild_constraints_def
      Let_def)

lemma run_cycle_0: "run_cycle d es pc 0 sf = initial_cycle d es pc sf"
  by (simp add: run_cycle_def initial_cycle_def solve_and_output_def initial_mesh_def
      setup_system_True Let_def and_then_def cong: sum.case_cong)

lemma run_cycle_Suc: "run_cycle d es pc (Suc c) sf = adaptive_cycle d es pc (Suc c) sf"
  by (simp add: run_cycle_def adaptive_cycle_def solve_and_output_def refine_grid_adapted
      setup_system_False adapted_mesh_def reinit_global_system_twice Let_def and_then_def
      cong: sum.case_cong)

lemma digit_chars:
  "char_of (48::nat) = CHR ''0''" "char_of (49::nat) = CHR ''1''"
  "char_of (50::nat) = CHR ''2''"
  by code_simp+

lemma counting_solve:
  "solve counting_dealii es pc s
     = Inr (picard_assemble counting_dealii es pc 4
              (picard_assemble counting_dealii es pc 3
                 (picard_assemble counting_dealii es pc 2
                    (picard_assemble counting_dealii es pc 1
                       (picard_assemble counting_dealii es pc 0 s
                          \<lparr>solution := solution s @ [Finite 1000]\<rparr>)
                       \<lparr>solution := solution s @ [Finite 1000, Finite 1000]\<rparr>)
                    \<lparr>solution := solution s @ [Finite 1000, Finite 1000, Finite 1000]\<rparr>)
                 \<lparr>solution := solution s @ [Finite 1000, Finite 1000, Finite 1000, Finite 1000]\<rparr>)
              \<lparr>solution := solution s
                   @ [Finite 1000, Finite 1000, Finite 1000, Finite 1000, Finite 1000]\<rparr>)"
  by (simp add: solve_def upt_5 solve_iteration_picard counting_step)

text \<open>
  Claim C7. \<open>run\<close> is three cycles in sequence: the initial cycle, then two adaptive
  cycles, numbered 1 and 2, each on the solver and the files the cycle before it left.
  After the mesh update of either kind the global right-hand side has one entry per
  degree of freedom of the new mesh.
\<close>

theorem three_adaptive_cycles:
  "run d es pc s =
     and_then (and_then (initial_cycle d es pc (s, [])) (adaptive_cycle d es pc 1))
       (adaptive_cycle d es pc 2)
   \<and> length (system_rhs (initial_mesh d s)) = n_dofs d (dof_handler (initial_mesh d s))
   \<and> length (system_rhs (adapted_mesh d s)) = n_dofs d (dof_handler (adapted_mesh d s))"
proof (intro conjI)
  have "run d es pc s =
     and_then (initial_cycle d es pc (s, []))
       (\<lambda>sf. and_then (adaptive_cycle d es pc 1 sf) (adaptive_cycle d es pc 2))"
    unfolding run_def upt_3 for_loop_and_then
    using run_cycle_Suc [of d es pc 0] run_cycle_Suc [of d es pc 1]
    by (simp add: run_cycle_0 and_then_def fun_eq_iff numeral_2_eq_2 split: sum.splits)
  then show "run d es pc s =
     and_then (and_then (initial_cycle d es pc (s, [])) (adaptive_cycle d es pc 1))
       (adaptive_cycle d es pc 2)"
    by (simp only: and_then_assoc)
qed (simp_all add: initial_mesh_def adapted_mesh_def reinit_global_system_def Let_def
    vector_reinit_def)

theorem three_adaptive_cycles_witness:
  "map_sum id (\<lambda>sf. map file_name (snd sf))
     (run counting_dealii EllipticSystems example_constants example_shelf)
     = Inr [''solution-0.vtk'', ''solution-1.vtk'', ''solution-2.vtk'']"
  by (simp add: three_adaptive_cycles [THEN conjunct1] initial_cycle_def adaptive_cycle_def
      solve_and_output_def counting_solve and_then_def output_results_def digit_chars)


section \<open>Failure of the linear solve\<close>

lemma run_cycle_cycle_mesh:
  "run_cycle d es pc cycle sf = solve_and_output d es pc cycle (snd sf) (cycle_mesh d cycle (fst sf))"
proof (cases cycle)
  case 0
  then show ?thesis
    by (simp add: run_cycle_0 initial_cycle_def cycle_mesh_def)
next
  case (Suc c)
  then show ?thesis
    by (simp add: run_cycle_Suc adaptive_cycle_def cycle_mesh_def)
qed

lemma SolverCG_solve_fails:
  assumes "\<forall>j\<le>max_steps control. \<not> less_eq_d (snd (steps j)) (tolerance control)"
  shows "SolverCG_solve control steps = Inl NoConvergence"
proof (cases "find (\<lambda>k. SolverControl_check control k (snd (steps k)) \<noteq> Iterate)
                [0..<Suc (max_steps control)]")
  case None
  then show ?thesis
    by (simp add: SolverCG_solve_def)
next
  case (Some k)
  then have "k \<in> set [0..<Suc (max_steps control)]"
    by (metis find_Some_iff nth_mem)
  then have "k \<le> max_steps control"
    by auto
  then have "SolverControl_check control k (snd (steps k)) \<noteq> Success"
    using assms by (simp add: SolverControl_check_def)
  with Some show ?thesis
    by (simp add: SolverCG_solve_def)
qed

lemma SolverCG_solve_succeeds:
  assumes "SolverCG_solve control steps = Inr x"
  shows "\<exists>j\<le>max_steps control. less_eq_d (snd (steps j)) (tolerance control) \<and> x = fst (steps j)"
proof (cases "find (\<lambda>k. SolverControl_check control k (snd (steps k)) \<noteq> Iterate)
                [0..<Suc (max_steps control)]")
  case None
  then show ?thesis
    using assms by (simp add: SolverCG_solve_def)
next
  case (Some k)
  then have "k \<in> set [0..<Suc (max_steps control)]"
    by (metis find_Some_iff nth_mem)
  then have k: "k \<le> max_steps control"
    by auto
  from Some assms have "SolverControl_check control k (snd (steps k)) = Success"
    and "x = fst (steps k)"
    by (auto simp add: SolverCG_solve_def split: if_splits)
  then have "less_eq_d (snd (steps k)) (tolerance control) \<and> x = fst (steps k)"
    by (simp add: SolverControl_check_def split: if_splits)
  with k show ?thesis
    by blast
qed

lemma find_upt_first:
  assumes "k < n" and "P k" and "\<And>j. j < k \<Longrightarrow> \<not> P j"
  shows "find P [0..<n] = Some k"
  unfolding find_Some_iff using assms by (intro exI [of _ k]) simp

lemma SolverCG_solve_returns:
  assumes "k \<le> max_steps control"
    and "less_eq_d (snd (steps k)) (tolerance control)"
    and "\<And>j. j < k \<Longrightarrow> SolverControl_check control j (snd (steps j)) = Iterate"
  shows "SolverCG_solve control steps = Inr (fst (steps k))"
proof -
  have s: "SolverControl_check control k (snd (steps k)) = Success"
    using assms(2) by (simp add: SolverControl_check_def)
  have "find (\<lambda>k. SolverControl_check control k (snd (steps k)) \<noteq> Iterate)
          [0..<Suc (max_steps control)] = Some k"
    using assms(1,3) s by (intro find_upt_first) simp_all
  then show ?thesis
    by (simp add: SolverCG_solve_def s)
qed

lemma solve_first_failure:
  "solve_iteration d es pc 0 s = Inl e \<Longrightarrow> solve d es pc s = Inl e"
  by (simp add: solve_def upt_5)

text \<open>
  Claim C8, as amended. Every Picard iteration calls the conjugate-gradient solver once,
  with the iteration cap 1000 and the tolerance 1e-12, on the system just assembled and
  with the preconditioner initialised from that system's matrix. If the call fails in
  some iteration \<open>k\<close>, after the iterations before it succeeded, then \<open>solve\<close> fails with
  the same error, and so does \<open>run\<close> when this happens in one of its cycles: nothing
  catches the error, retries or solves again. The solver of deal.II under this control
  fails with \<^verbatim>\<open>NoConvergence\<close> when the norm of the residual is not at most 1e-12 at
  the starting value nor after any of the 1000 steps, and an iterate it returns has a
  residual whose norm is at most 1e-12: the tolerance bounds the residual itself, not
  its ratio to the residual of the starting value.
\<close>

theorem linear_solve_failure_is_fatal:
  assumes "k < 5"
    and "for_loop (solve_iteration d es pc) [0..<k] s = Inr s'"
    and "cg_solve d \<lparr>max_steps = 1000, tolerance = Finite (1 / 10 ^ 12)\<rparr>
           (system_matrix (picard_assemble d es pc k s'))
           (solution (picard_assemble d es pc k s'))
           (system_rhs (picard_assemble d es pc k s'))
           (ilu_initialize d (system_matrix (picard_assemble d es pc k s'))) = Inl e"
  shows "solve d es pc s = Inl e
       \<and> (\<forall>i t. solve_iteration d es pc i t
                 = (case cg_solve d \<lparr>max_steps = 1000, tolerance = Finite (1 / 10 ^ 12)\<rparr>
                           (system_matrix (picard_assemble d es pc i t))
                           (solution (picard_assemble d es pc i t))
                           (system_rhs (picard_assemble d es pc i t))
                           (ilu_initialize d (system_matrix (picard_assemble d es pc i t))) of
                      Inl e' \<Rightarrow> Inl e'
                    | Inr x \<Rightarrow>
                        Inr ((picard_assemble d es pc i t)
                               \<lparr>solution :=
                                  distribute d
                                    (hanging_node_constraints (picard_assemble d es pc i t))
                                    x\<rparr>)))
       \<and> (\<forall>c sf s0. c < 3 \<and> for_loop (run_cycle d es pc) [0..<c] (s0, []) = Inr sf
                      \<and> cycle_mesh d c (fst sf) = s
            \<longrightarrow> run d es pc s0 = Inl e)
       \<and> (\<forall>steps. (\<forall>j\<le>1000. \<not> less_eq_d (snd (steps j)) (Finite (1 / 10 ^ 12)))
            \<longrightarrow> SolverCG_solve \<lparr>max_steps = 1000, tolerance = Finite (1 / 10 ^ 12)\<rparr> steps
                  = Inl NoConvergence)
       \<and> (\<forall>steps x.
            SolverCG_solve \<lparr>max_steps = 1000, tolerance = Finite (1 / 10 ^ 12)\<rparr> steps = Inr x
            \<longrightarrow> (\<exists>j\<le>1000. less_eq_d (snd (steps j)) (Finite (1 / 10 ^ 12))
                             \<and> x = fst (steps j)))"
proof (intro conjI allI impI)
  have "solve_iteration d es pc k s' = Inl e"
    using assms(3)
    by (simp add: solve_iteration_picard picard_iteration_def solve_and_distribute_def)
  then show fails: "solve d es pc s = Inl e"
    unfolding solve_def upt_split [OF assms(1)] by (rule for_loop_fails [OF assms(2)])
  fix c sf s0
  assume h: "c < 3 \<and> for_loop (run_cycle d es pc) [0..<c] (s0, []) = Inr sf
               \<and> cycle_mesh d c (fst sf) = s"
  then have "run_cycle d es pc c sf = Inl e"
    using fails by (simp add: run_cycle_cycle_mesh solve_and_output_def and_then_def)
  with h show "run d es pc s0 = Inl e"
    unfolding run_def using upt_split [of c 3] for_loop_fails by metis
next
  fix i t
  show "solve_iteration d es pc i t
          = (case cg_solve d \<lparr>max_steps = 1000, tolerance = Finite (1 / 10 ^ 12)\<rparr>
                    (system_matrix (picard_assemble d es pc i t))
                    (solution (picard_assemble d es pc i t))
                    (system_rhs (picard_assemble d es pc i t))
                    (ilu_initialize d (system_matrix (picard_assemble d es pc i t))) of
               Inl e' \<Rightarrow> Inl e'
             | Inr x \<Rightarrow>
                 Inr ((picard_assemble d es pc i t)
                        \<lparr>solution :=
                           distribute d
                             (hanging_node_constraints (picard_assemble d es pc i t)) x\<rparr>))"
    by (simp add: solve_iteration_picard picard_iteration_def solve_and_distribute_def)
next
  fix steps :: "nat \<Rightarrow> vector \<times> dbl"
  assume "\<forall>j\<le>1000. \<not> less_eq_d (snd (steps j)) (Finite (1 / 10 ^ 12))"
  then show "SolverCG_solve \<lparr>max_steps = 1000, tolerance = Finite (1 / 10 ^ 12)\<rparr> steps
               = Inl NoConvergence"
    by (intro SolverCG_solve_fails) simp
next
  fix steps :: "nat \<Rightarrow> vector \<times> dbl" and x
  assume "SolverCG_solve \<lparr>max_steps = 1000, tolerance = Finite (1 / 10 ^ 12)\<rparr> steps = Inr x"
  from SolverCG_solve_succeeds [OF this]
  show "\<exists>j\<le>1000. less_eq_d (snd (steps j)) (Finite (1 / 10 ^ 12)) \<and> x = fst (steps j)"
    by simp
qed

theorem linear_solve_failure_is_fatal_witness:
  "solve stalling_dealii EllipticSystems example_constants
     (cycle_mesh stalling_dealii 0 example_shelf) = Inl NoConvergence
   \<and> run stalling_dealii EllipticSystems example_constants example_shelf = Inl NoConvergence
   \<and> SolverCG_solve \<lparr>max_steps = 1000, tolerance = Finite (1 / 10 ^ 12)\<rparr>
       (\<lambda>k. ([Finite (real k)], Finite 1)) = Inl NoConvergence
   \<and> (\<exists>j\<le>1000. less_eq_d (snd ([Finite (real j)], if j < 3 then Finite 1 else Finite 0))
                    (Finite (1 / 10 ^ 12))
                \<and> [Finite 3] = fst ([Finite (real j)], if j < 3 then Finite 1 else Finite 0))"
proof -
  let ?s = "cycle_mesh stalling_dealii 0 example_shelf"
  have h1: "(0::nat) < 5" by simp
  have h2: "for_loop (solve_iteration stalling_dealii EllipticSystems example_constants)
              [0..<0] ?s = Inr ?s"
    by simp
  have h3: "cg_solve stalling_dealii \<lparr>max_steps = 1000, tolerance = Finite (1 / 10 ^ 12)\<rparr>
           (system_matrix (picard_assemble stalling_dealii EllipticSystems example_constants 0 ?s))
           (solution (picard_assemble stalling_dealii EllipticSystems example_constants 0 ?s))
           (system_rhs (picard_assemble stalling_dealii EllipticSystems example_constants 0 ?s))
           (ilu_initialize stalling_dealii
              (system_matrix
                 (picard_assemble stalling_dealii EllipticSystems example_constants 0 ?s)))
         = Inl NoConvergence"
    by (simp add: stalling_dealii_def)
  note t = linear_solve_failure_is_fatal [OF h1 h2 h3]
  have c: "(0::nat) < 3 \<and> for_loop (run_cycle stalling_dealii EllipticSystems example_constants)
           [0..<0] (example_shelf, []) = Inr (example_shelf, [])
        \<and> cycle_mesh stalling_dealii 0 (fst (example_shelf, [])) = ?s"
    by simp
  have r: "\<forall>j\<le>1000. \<not> less_eq_d (snd ([Finite (real j)], Finite 1)) (Finite (1 / 10 ^ 12))"
    by (simp add: less_eq_d_def)
  have "SolverCG_solve \<lparr>max_steps = 1000, tolerance = Finite (1 / 10 ^ 12)\<rparr>
          (\<lambda>j. ([Finite (real j)], if j < 3 then Finite 1 else Finite 0))
        = Inr (fst ([Finite (real (3::nat))], if (3::nat) < 3 then Finite 1 else Finite 0))"
    by (rule SolverCG_solve_returns) (simp_all add: less_eq_d_def SolverControl_check_def)
  then have g: "SolverCG_solve \<lparr>max_steps = 1000, tolerance = Finite (1 / 10 ^ 12)\<rparr>
          (\<lambda>j. ([Finite (real j)], if j < 3 then Finite 1 else Finite 0)) = Inr [Finite 3]"
    by simp
  note run_fails = t [THEN conjunct2, THEN conjunct2, THEN conjunct1, THEN spec, THEN spec,
      THEN spec, THEN mp, OF c]
  note cap = t [THEN conjunct2, THEN conjunct2, THEN conjunct2, THEN conjunct1, THEN spec,
      THEN mp, OF r]
  note reached = t [THEN conjunct2, THEN conjunct2, THEN conjunct2, THEN conjunct2, THEN spec,
      THEN spec, THEN mp, OF g]
  from t [THEN conjunct1] run_fails cap reached show ?thesis
    by (intro conjI)
qed

text \<open>
  The claim as it stands calls the tolerance relative. On a linear system whose
  residual norm falls from \<open>10^6\<close> at the starting value to \<open>10^-9\<close> after the first
  step and stays there, the residual has been reduced by more than the factor 1e-12,
  and yet the solver of deal.II does not stop there: it runs into the iteration cap
  and \<open>solve\<close> fails with \<^verbatim>\<open>NoConvergence\<close>.
\<close>

theorem relative_tolerance_counterexample:
  "less_eq_d (snd (plateau_steps [] 1)) (Finite (1 / 10 ^ 12) * snd (plateau_steps [] 0))
   \<and> solve plateau_dealii EllipticSystems example_constants example_shelf
       = Inl NoConvergence"
proof -
  have "SolverCG_solve \<lparr>max_steps = 1000, tolerance = Finite (1 / 10 ^ 12)\<rparr> (plateau_steps x)
          = Inl NoConvergence" for x
    by (intro SolverCG_solve_fails) (simp add: plateau_steps_def less_eq_d_def)
  then have "solve_iteration plateau_dealii EllipticSystems example_constants 0 example_shelf
               = Inl NoConvergence"
    by (simp add: solve_iteration_picard picard_iteration_def solve_and_distribute_def
        plateau_dealii_def)
  then show ?thesis
    by (simp add: solve_first_failure plateau_steps_def less_eq_d_def)
qed

end
